theory Spec2Isabelle
  imports Main "HOL-Library.AList" "HOL-Library.Sublist"
begin

section \<open>Python values used by the chatbot\<close>

text \<open>
  Python \<open>str\<close> and \<open>bytes\<close> are both modelled as \<^typ>\<open>string\<close>: a text is the list of
  the bytes of its UTF-8 encoding, so the ASCII texts the program compares against are
  character for character the Python ones.

  A \<open>dict\<close> is an association list in insertion order. Assigning \<open>d[k] = v\<close> is
  \<^const>\<open>AList.update\<close>: an existing key keeps its position and takes the new value,
  a new key goes to the end. \<open>d.get(k, dflt)\<close> is \<open>dict_get\<close>, and
  \<open>d.items()\<close> is the list itself.
\<close>

definition dict_get :: "('k \<times> 'v) list \<Rightarrow> 'k \<Rightarrow> 'v \<Rightarrow> 'v" where
  "dict_get d k dflt = (case map_of d k of None \<Rightarrow> dflt | Some v \<Rightarrow> v)"

text \<open>
  \<open>sorted(items, key=lambda x: x[1], reverse=True)\<close>: Python's sort is stable and
  \<open>reverse=True\<close> keeps the original order of elements with equal keys, so it is the
  stable (insertion) sort on the negated key.
\<close>

definition sorted_by_score_reverse :: "(string \<times> int) list \<Rightarrow> (string \<times> int) list" where
  "sorted_by_score_reverse items = sort_key (\<lambda>x. - snd x) items"

section \<open>Career assessment: \<open>generate_career_recommendations\<close>\<close>

text \<open>
  \<open>assessment_data\<close> is a dict read only through \<open>.get(key, default)\<close>; a field is
  \<open>None\<close> when the key is missing.
\<close>

record assessment_data =
  interests :: "string list option"
  technical_skills :: "string list option"
  work_style :: "string option"
  team_size :: "string option"
  career_focus :: "string option"
  risk_tolerance :: "string option"

definition get_or :: "'a option \<Rightarrow> 'a \<Rightarrow> 'a" where
  "get_or field dflt = (case field of None \<Rightarrow> dflt | Some v \<Rightarrow> v)"

record recommendation =
  career :: string
  match_percentage :: int
  description :: string
  key_skills :: "string list"
  salary_range :: string
  growth_outlook :: string

definition interest_career_map :: "(string \<times> string list) list" where
  "interest_career_map = [
     (''Technology'', [''Software Developer'', ''IT Manager'', ''Data Scientist'', ''Cybersecurity Analyst'']),
     (''Healthcare'', [''Registered Nurse'', ''Healthcare Administrator'', ''Medical Technician'', ''Physical Therapist'']),
     (''Education'', [''Teacher'', ''Education Administrator'', ''Curriculum Developer'', ''Corporate Trainer'']),
     (''Business'', [''Business Analyst'', ''Management Consultant'', ''Product Manager'', ''Operations Manager'']),
     (''Arts & Design'', [''Graphic Designer'', ''UX/UI Designer'', ''Art Director'', ''Content Creator'']),
     (''Science'', [''Research Scientist'', ''Lab Technician'', ''Environmental Scientist'', ''Biomedical Engineer'']),
     (''Engineering'', [''Mechanical Engineer'', ''Civil Engineer'', ''Electrical Engineer'', ''Software Engineer'']),
     (''Finance'', [''Financial Analyst'', ''Accountant'', ''Investment Banker'', ''Financial Advisor'']),
     (''Marketing'', [''Marketing Manager'', ''Content Strategist'', ''Social Media Manager'', ''Brand Manager'']),
     (''Social Work'', [''Social Worker'', ''Counselor'', ''Community Organizer'', ''Non-profit Manager''])]"

definition skill_career_map :: "(string \<times> string list) list" where
  "skill_career_map = [
     (''Programming'', [''Software Developer'', ''Data Scientist'', ''Software Engineer'', ''Web Developer'']),
     (''Data Analysis'', [''Data Scientist'', ''Business Analyst'', ''Market Research Analyst'', ''Financial Analyst'']),
     (''Project Management'', [''Project Manager'', ''Product Manager'', ''Operations Manager'', ''Management Consultant'']),
     (''Design'', [''Graphic Designer'', ''UX/UI Designer'', ''Art Director'', ''Product Designer'']),
     (''Writing'', [''Content Creator'', ''Technical Writer'', ''Copywriter'', ''Editor'']),
     (''Public Speaking'', [''Corporate Trainer'', ''Sales Manager'', ''Public Relations Specialist'', ''Motivational Speaker'']),
     (''Research'', [''Research Scientist'', ''Market Research Analyst'', ''Academic Researcher'', ''UX Researcher'']),
     (''Sales'', [''Sales Manager'', ''Account Executive'', ''Business Development Manager'', ''Sales Representative'']),
     (''Customer Service'', [''Customer Success Manager'', ''Customer Experience Manager'', ''Support Specialist'', ''Client Relations Manager'']),
     (''Leadership'', [''Team Lead'', ''Department Manager'', ''Director'', ''Executive''])]"

text \<open>
  The dict literal of the source writes the key \<open>Operations Manager\<close> twice, with the same
  value both times, so reading the first entry agrees with Python's last-one-wins.
\<close>

definition descriptions :: "(string \<times> string) list" where
  "descriptions = [
     (''Software Developer'', ''Design, develop, and test software applications and systems.''),
     (''Data Scientist'', ''Analyze complex data to help organizations make better decisions.''),
     (''UX/UI Designer'', ''Create user-friendly interfaces and experiences for digital products.''),
     (''Project Manager'', ''Plan, execute, and close projects, ensuring they meet deadlines and budgets.''),
     (''Product Manager'', ''Guide the development of products from conception to launch.''),
     (''Business Analyst'', ''Analyze business needs and find solutions to business problems.''),
     (''Marketing Manager'', ''Develop and implement marketing strategies to promote products or services.''),
     (''Financial Analyst'', ''Evaluate financial data to help businesses make investment decisions.''),
     (''Graphic Designer'', ''Create visual concepts to communicate ideas through designs.''),
     (''Technical Writer'', ''Create documentation that explains technical information in a clear way.''),
     (''Operations Manager'', ''Oversee the production of goods and services in an organization.''),
     (''Healthcare Administrator'', ''Manage healthcare facilities and ensure quality patient care.''),
     (''Teacher'', ''Educate students and help them develop knowledge and skills.''),
     (''Social Worker'', ''Help people cope with problems in their everyday lives.''),
     (''Accountant'', ''Prepare and examine financial records and ensure taxes are paid properly.''),
     (''Mechanical Engineer'', ''Design and develop mechanical devices and systems.''),
     (''Research Scientist'', ''Conduct research to advance knowledge in their field.''),
     (''Investment Banker'', ''Help companies raise capital and provide financial advisory services.''),
     (''Management Consultant'', ''Advise organizations on how to improve performance and efficiency.''),
     (''Environmental Scientist'', ''Study the environment and develop solutions to environmental problems.''),
     (''Registered Nurse'', ''Provide patient care and educate patients about health conditions.''),
     (''Content Creator'', ''Produce engaging content for various platforms and audiences.''),
     (''Cybersecurity Analyst'', ''Protect computer systems and networks from cyber threats.''),
     (''IT Manager'', ''Oversee the technology infrastructure of an organization.''),
     (''Education Administrator'', ''Manage educational institutions and programs.''),
     (''Art Director'', ''Oversee the visual style and images in publications, product packaging, and more.''),
     (''Civil Engineer'', ''Design and supervise the construction of infrastructure projects.''),
     (''Electrical Engineer'', ''Design, develop, and test electrical equipment and systems.''),
     (''Financial Advisor'', ''Provide financial guidance to individuals and businesses.''),
     (''Sales Manager'', ''Lead a team of sales representatives and set sales goals.''),
     (''Customer Success Manager'', ''Ensure customers get the most value from a product or service.''),
     (''Lab Technician'', ''Perform tests and procedures in a laboratory setting.''),
     (''Physical Therapist'', ''Help patients recover from injuries and illnesses.''),
     (''Biomedical Engineer'', ''Design and develop medical devices and equipment.''),
     (''Curriculum Developer'', ''Create educational materials and learning experiences.''),
     (''Corporate Trainer'', ''Teach employees skills and knowledge relevant to their jobs.''),
     (''Operations Manager'', ''Oversee the production of goods and services in an organization.''),
     (''Content Strategist'', ''Plan, develop, and manage content to meet business goals.''),
     (''Social Media Manager'', ''Manage social media accounts and create engaging content.''),
     (''Brand Manager'', ''Develop and maintain the public image of a company or product.''),
     (''Counselor'', ''Help individuals deal with mental health and emotional issues.''),
     (''Community Organizer'', ''Work with community members to address local issues.''),
     (''Non-profit Manager'', ''Oversee the operations of a non-profit organization.''),
     (''Public Relations Specialist'', ''Manage the public image of an organization or individual.''),
     (''Market Research Analyst'', ''Study market conditions to examine potential sales of products or services.''),
     (''Academic Researcher'', ''Conduct research in an academic setting to advance knowledge.''),
     (''UX Researcher'', ''Study user behavior to inform product design and development.''),
     (''Account Executive'', ''Manage client relationships and drive sales.''),
     (''Business Development Manager'', ''Identify new business opportunities and build relationships.''),
     (''Sales Representative'', ''Sell products or services to customers.''),
     (''Customer Experience Manager'', ''Oversee and improve the overall customer experience.''),
     (''Client Relations Manager'', ''Maintain and develop relationships with clients.''),
     (''Support Specialist'', ''Provide technical support to customers.''),
     (''Team Lead'', ''Lead a team of employees and oversee their work.''),
     (''Department Manager'', ''Manage a specific department within an organization.''),
     (''Director'', ''Oversee a major function or division of an organization.''),
     (''Executive'', ''Make high-level decisions that affect the entire organization.''),
     (''Copywriter'', ''Write compelling text for marketing and advertising purposes.''),
     (''Editor'', ''Review and revise content for publication.''),
     (''Motivational Speaker'', ''Deliver speeches to inspire and motivate audiences.''),
     (''Web Developer'', ''Build and maintain websites and web applications.''),
     (''Product Designer'', ''Design products that are both functional and aesthetically pleasing.'')]"

definition skills_map :: "(string \<times> string list) list" where
  "skills_map = [
     (''Software Developer'', [''Programming'', ''Problem Solving'', ''Attention to Detail'', ''Teamwork'']),
     (''Data Scientist'', [''Data Analysis'', ''Statistics'', ''Machine Learning'', ''Communication'']),
     (''UX/UI Designer'', [''Design Principles'', ''User Research'', ''Prototyping'', ''Communication'']),
     (''Project Manager'', [''Planning'', ''Risk Management'', ''Communication'', ''Leadership'']),
     (''Product Manager'', [''Market Research'', ''Strategic Thinking'', ''Communication'', ''Leadership'']),
     (''Business Analyst'', [''Critical Thinking'', ''Data Analysis'', ''Communication'', ''Problem Solving'']),
     (''Marketing Manager'', [''Market Research'', ''Strategic Planning'', ''Communication'', ''Creativity'']),
     (''Financial Analyst'', [''Financial Modeling'', ''Attention to Detail'', ''Analytical Thinking'', ''Communication'']),
     (''Graphic Designer'', [''Design Software'', ''Creativity'', ''Typography'', ''Time Management'']),
     (''Technical Writer'', [''Writing Skills'', ''Technical Knowledge'', ''Attention to Detail'', ''Communication'']),
     (''Operations Manager'', [''Process Optimization'', ''Leadership'', ''Problem Solving'', ''Communication'']),
     (''Healthcare Administrator'', [''Healthcare Knowledge'', ''Management'', ''Budgeting'', ''Communication'']),
     (''Teacher'', [''Subject Knowledge'', ''Communication'', ''Patience'', ''Classroom Management'']),
     (''Social Worker'', [''Empathy'', ''Communication'', ''Problem Solving'', ''Resourcefulness'']),
     (''Accountant'', [''Accounting Principles'', ''Attention to Detail'', ''Analytical Skills'', ''Ethics'']),
     (''Mechanical Engineer'', [''Engineering Principles'', ''Problem Solving'', ''Technical Skills'', ''Teamwork'']),
     (''Research Scientist'', [''Research Methods'', ''Critical Thinking'', ''Data Analysis'', ''Patience'']),
     (''Investment Banker'', [''Financial Analysis'', ''Strategic Thinking'', ''Communication'', ''Resilience'']),
     (''Management Consultant'', [''Problem Solving'', ''Analytical Skills'', ''Communication'', ''Strategic Thinking'']),
     (''Environmental Scientist'', [''Scientific Knowledge'', ''Data Analysis'', ''Field Research'', ''Communication'']),
     (''Registered Nurse'', [''Medical Knowledge'', ''Patient Care'', ''Communication'', ''Empathy'']),
     (''Content Creator'', [''Creativity'', ''Content Strategy'', ''Social Media Knowledge'', ''Communication'']),
     (''Cybersecurity Analyst'', [''Network Security'', ''Problem Solving'', ''Attention to Detail'', ''Communication'']),
     (''IT Manager'', [''IT Knowledge'', ''Management'', ''Strategic Planning'', ''Communication'']),
     (''Education Administrator'', [''Educational Knowledge'', ''Management'', ''Budgeting'', ''Communication'']),
     (''Art Director'', [''Design Principles'', ''Leadership'', ''Creativity'', ''Communication'']),
     (''Civil Engineer'', [''Engineering Principles'', ''Project Management'', ''Problem Solving'', ''Attention to Detail'']),
     (''Electrical Engineer'', [''Engineering Principles'', ''Technical Skills'', ''Problem Solving'', ''Teamwork'']),
     (''Financial Advisor'', [''Financial Knowledge'', ''Communication'', ''Sales Skills'', ''Trustworthiness'']),
     (''Sales Manager'', [''Sales Skills'', ''Leadership'', ''Communication'', ''Strategic Thinking'']),
     (''Customer Success Manager'', [''Customer Service'', ''Communication'', ''Problem Solving'', ''Relationship Building'']),
     (''Lab Technician'', [''Lab Procedures'', ''Attention to Detail'', ''Technical Skills'', ''Documentation'']),
     (''Physical Therapist'', [''Medical Knowledge'', ''Patient Care'', ''Communication'', ''Patience'']),
     (''Biomedical Engineer'', [''Engineering Principles'', ''Medical Knowledge'', ''Problem Solving'', ''Technical Skills'']),
     (''Curriculum Developer'', [''Educational Knowledge'', ''Content Development'', ''Research Skills'', ''Communication'']),
     (''Corporate Trainer'', [''Subject Knowledge'', ''Presentation Skills'', ''Communication'', ''Patience'']),
     (''Content Strategist'', [''Content Planning'', ''SEO Knowledge'', ''Analytics'', ''Communication'']),
     (''Social Media Manager'', [''Social Media Knowledge'', ''Content Creation'', ''Analytics'', ''Communication'']),
     (''Brand Manager'', [''Marketing Knowledge'', ''Strategic Thinking'', ''Creativity'', ''Communication'']),
     (''Counselor'', [''Psychology Knowledge'', ''Empathy'', ''Communication'', ''Active Listening'']),
     (''Community Organizer'', [''Communication'', ''Leadership'', ''Problem Solving'', ''Resourcefulness'']),
     (''Non-profit Manager'', [''Management'', ''Fundraising'', ''Communication'', ''Strategic Planning'']),
     (''Public Relations Specialist'', [''Communication'', ''Writing Skills'', ''Media Relations'', ''Strategic Thinking'']),
     (''Market Research Analyst'', [''Data Analysis'', ''Research Methods'', ''Critical Thinking'', ''Communication'']),
     (''Academic Researcher'', [''Research Methods'', ''Subject Knowledge'', ''Critical Thinking'', ''Writing Skills'']),
     (''UX Researcher'', [''Research Methods'', ''User Psychology'', ''Data Analysis'', ''Communication'']),
     (''Account Executive'', [''Sales Skills'', ''Communication'', ''Relationship Building'', ''Product Knowledge'']),
     (''Business Development Manager'', [''Sales Skills'', ''Strategic Thinking'', ''Communication'', ''Networking'']),
     (''Sales Representative'', [''Sales Skills'', ''Communication'', ''Product Knowledge'', ''Persistence'']),
     (''Customer Experience Manager'', [''Customer Service'', ''Communication'', ''Problem Solving'', ''Analytics'']),
     (''Client Relations Manager'', [''Communication'', ''Relationship Building'', ''Problem Solving'', ''Customer Service'']),
     (''Support Specialist'', [''Technical Knowledge'', ''Problem Solving'', ''Communication'', ''Patience'']),
     (''Team Lead'', [''Leadership'', ''Communication'', ''Technical Skills'', ''Time Management'']),
     (''Department Manager'', [''Management'', ''Strategic Planning'', ''Communication'', ''Budgeting'']),
     (''Director'', [''Strategic Thinking'', ''Leadership'', ''Communication'', ''Decision Making'']),
     (''Executive'', [''Strategic Vision'', ''Leadership'', ''Decision Making'', ''Communication'']),
     (''Copywriter'', [''Writing Skills'', ''Creativity'', ''Marketing Knowledge'', ''Attention to Detail'']),
     (''Editor'', [''Writing Skills'', ''Attention to Detail'', ''Communication'', ''Time Management'']),
     (''Motivational Speaker'', [''Public Speaking'', ''Communication'', ''Inspiration'', ''Storytelling'']),
     (''Web Developer'', [''Programming'', ''Web Technologies'', ''Problem Solving'', ''Attention to Detail'']),
     (''Product Designer'', [''Design Principles'', ''User Research'', ''Prototyping'', ''Communication''])]"

definition salary_map :: "(string \<times> string) list" where
  "salary_map = [
     (''Software Developer'', ''$70,000 - $150,000''),
     (''Data Scientist'', ''$85,000 - $170,000''),
     (''UX/UI Designer'', ''$65,000 - $130,000''),
     (''Project Manager'', ''$75,000 - $140,000''),
     (''Product Manager'', ''$85,000 - $160,000''),
     (''Business Analyst'', ''$65,000 - $120,000''),
     (''Marketing Manager'', ''$70,000 - $140,000''),
     (''Financial Analyst'', ''$65,000 - $120,000''),
     (''Graphic Designer'', ''$45,000 - $85,000''),
     (''Technical Writer'', ''$55,000 - $100,000''),
     (''Operations Manager'', ''$70,000 - $130,000''),
     (''Healthcare Administrator'', ''$75,000 - $140,000''),
     (''Teacher'', ''$40,000 - $75,000''),
     (''Social Worker'', ''$45,000 - $75,000''),
     (''Accountant'', ''$55,000 - $100,000''),
     (''Mechanical Engineer'', ''$70,000 - $130,000''),
     (''Research Scientist'', ''$75,000 - $140,000''),
     (''Investment Banker'', ''$100,000 - $250,000+''),
     (''Management Consultant'', ''$85,000 - $180,000''),
     (''Environmental Scientist'', ''$60,000 - $110,000''),
     (''Registered Nurse'', ''$60,000 - $90,000''),
     (''Content Creator'', ''$40,000 - $100,000+''),
     (''Cybersecurity Analyst'', ''$75,000 - $140,000''),
     (''IT Manager'', ''$85,000 - $150,000''),
     (''Education Administrator'', ''$70,000 - $130,000''),
     (''Art Director'', ''$65,000 - $130,000''),
     (''Civil Engineer'', ''$70,000 - $130,000''),
     (''Electrical Engineer'', ''$75,000 - $140,000''),
     (''Financial Advisor'', ''$60,000 - $150,000+''),
     (''Sales Manager'', ''$75,000 - $150,000+''),
     (''Customer Success Manager'', ''$65,000 - $120,000''),
     (''Lab Technician'', ''$40,000 - $70,000''),
     (''Physical Therapist'', ''$70,000 - $100,000''),
     (''Biomedical Engineer'', ''$70,000 - $130,000''),
     (''Curriculum Developer'', ''$60,000 - $100,000''),
     (''Corporate Trainer'', ''$60,000 - $110,000''),
     (''Content Strategist'', ''$60,000 - $110,000''),
     (''Social Media Manager'', ''$50,000 - $90,000''),
     (''Brand Manager'', ''$75,000 - $140,000''),
     (''Counselor'', ''$45,000 - $75,000''),
     (''Community Organizer'', ''$40,000 - $70,000''),
     (''Non-profit Manager'', ''$60,000 - $100,000''),
     (''Public Relations Specialist'', ''$50,000 - $90,000''),
     (''Market Research Analyst'', ''$60,000 - $110,000''),
     (''Academic Researcher'', ''$60,000 - $120,000''),
     (''UX Researcher'', ''$70,000 - $130,000''),
     (''Account Executive'', ''$60,000 - $130,000+''),
     (''Business Development Manager'', ''$70,000 - $140,000+''),
     (''Sales Representative'', ''$40,000 - $100,000+''),
     (''Customer Experience Manager'', ''$70,000 - $120,000''),
     (''Client Relations Manager'', ''$60,000 - $110,000''),
     (''Support Specialist'', ''$45,000 - $80,000''),
     (''Team Lead'', ''$70,000 - $120,000''),
     (''Department Manager'', ''$80,000 - $150,000''),
     (''Director'', ''$120,000 - $200,000+''),
     (''Executive'', ''$150,000 - $300,000+''),
     (''Copywriter'', ''$50,000 - $90,000''),
     (''Editor'', ''$55,000 - $95,000''),
     (''Motivational Speaker'', ''$50,000 - $200,000+''),
     (''Web Developer'', ''$60,000 - $120,000''),
     (''Product Designer'', ''$70,000 - $130,000'')]"

definition outlook_map :: "(string \<times> string) list" where
  "outlook_map = [
     (''Software Developer'', ''Excellent (22% growth expected through 2030)''),
     (''Data Scientist'', ''Excellent (31% growth expected through 2030)''),
     (''UX/UI Designer'', ''Excellent (13% growth expected through 2030)''),
     (''Project Manager'', ''Good (7% growth expected through 2030)''),
     (''Product Manager'', ''Excellent (10% growth expected through 2030)''),
     (''Business Analyst'', ''Good (7% growth expected through 2030)''),
     (''Marketing Manager'', ''Good (10% growth expected through 2030)''),
     (''Financial Analyst'', ''Good (6% growth expected through 2030)''),
     (''Graphic Designer'', ''Slow (3% growth expected through 2030)''),
     (''Technical Writer'', ''Good (7% growth expected through 2030)''),
     (''Operations Manager'', ''Good (7% growth expected through 2030)''),
     (''Healthcare Administrator'', ''Excellent (32% growth expected through 2030)''),
     (''Teacher'', ''Average (4% growth expected through 2030)''),
     (''Social Worker'', ''Excellent (13% growth expected through 2030)''),
     (''Accountant'', ''Average (4% growth expected through 2030)''),
     (''Mechanical Engineer'', ''Average (4% growth expected through 2030)''),
     (''Research Scientist'', ''Good (8% growth expected through 2030)''),
     (''Investment Banker'', ''Good (6% growth expected through 2030)''),
     (''Management Consultant'', ''Excellent (14% growth expected through 2030)''),
     (''Environmental Scientist'', ''Excellent (8% growth expected through 2030)''),
     (''Registered Nurse'', ''Excellent (9% growth expected through 2030)''),
     (''Content Creator'', ''Excellent (14% growth expected through 2030)''),
     (''Cybersecurity Analyst'', ''Excellent (33% growth expected through 2030)''),
     (''IT Manager'', ''Excellent (11% growth expected through 2030)''),
     (''Education Administrator'', ''Good (8% growth expected through 2030)''),
     (''Art Director'', ''Slow (4% growth expected through 2030)''),
     (''Civil Engineer'', ''Good (8% growth expected through 2030)''),
     (''Electrical Engineer'', ''Average (3% growth expected through 2030)''),
     (''Financial Advisor'', ''Excellent (5% growth expected through 2030)''),
     (''Sales Manager'', ''Good (5% growth expected through 2030)''),
     (''Customer Success Manager'', ''Excellent (15% growth expected through 2030)''),
     (''Lab Technician'', ''Average (7% growth expected through 2030)''),
     (''Physical Therapist'', ''Excellent (21% growth expected through 2030)''),
     (''Biomedical Engineer'', ''Excellent (6% growth expected through 2030)''),
     (''Curriculum Developer'', ''Good (7% growth expected through 2030)''),
     (''Corporate Trainer'', ''Good (9% growth expected through 2030)''),
     (''Content Strategist'', ''Excellent (10% growth expected through 2030)''),
     (''Social Media Manager'', ''Excellent (10% growth expected through 2030)''),
     (''Brand Manager'', ''Good (6% growth expected through 2030)''),
     (''Counselor'', ''Excellent (23% growth expected through 2030)''),
     (''Community Organizer'', ''Good (9% growth expected through 2030)''),
     (''Non-profit Manager'', ''Good (8% growth expected through 2030)''),
     (''Public Relations Specialist'', ''Good (11% growth expected through 2030)''),
     (''Market Research Analyst'', ''Excellent (18% growth expected through 2030)''),
     (''Academic Researcher'', ''Average (5% growth expected through 2030)''),
     (''UX Researcher'', ''Excellent (14% growth expected through 2030)''),
     (''Account Executive'', ''Good (6% growth expected through 2030)''),
     (''Business Development Manager'', ''Good (7% growth expected through 2030)''),
     (''Sales Representative'', ''Average (2% growth expected through 2030)''),
     (''Customer Experience Manager'', ''Excellent (15% growth expected through 2030)''),
     (''Client Relations Manager'', ''Good (6% growth expected through 2030)''),
     (''Support Specialist'', ''Average (6% growth expected through 2030)''),
     (''Team Lead'', ''Good (7% growth expected through 2030)''),
     (''Department Manager'', ''Good (7% growth expected through 2030)''),
     (''Director'', ''Good (8% growth expected through 2030)''),
     (''Executive'', ''Good (6% growth expected through 2030)''),
     (''Copywriter'', ''Slow (2% growth expected through 2030)''),
     (''Editor'', ''Slow (2% growth expected through 2030)''),
     (''Motivational Speaker'', ''Good (7% growth expected through 2030)''),
     (''Web Developer'', ''Excellent (13% growth expected through 2030)''),
     (''Product Designer'', ''Excellent (13% growth expected through 2030)'')]"

definition get_key_skills_for_career :: "string \<Rightarrow> string list" where
  "get_key_skills_for_career c =
     dict_get skills_map c [''Communication'', ''Problem Solving'', ''Teamwork'', ''Technical Skills'']"

definition get_salary_range_for_career :: "string \<Rightarrow> string" where
  "get_salary_range_for_career c = dict_get salary_map c ''$50,000 - $100,000''"

definition get_growth_outlook_for_career :: "string \<Rightarrow> string" where
  "get_growth_outlook_for_career c =
     dict_get outlook_map c ''Average (5% growth expected through 2030)''"

text \<open>
  \<open>potential_careers\<close> is a Python \<open>set\<close> of strings. The model keeps the sequence of
  elements passed to \<open>update\<close>, in order: the set is empty exactly when that sequence is,
  and its members are the members of the sequence. The order in which a \<open>for\<close> loop
  visits a set of strings depends on the string hashes, which the program does not
  control; it is the parameter \<open>set_iter\<close>, a function from the elements added to the
  order of iteration.
\<close>

definition careers_for :: "(string \<times> string list) list \<Rightarrow> string list \<Rightarrow> string list" where
  "careers_for m keys =
     concat (map (\<lambda>k. case map_of m k of None \<Rightarrow> [] | Some cs \<Rightarrow> cs) keys)"

definition potential_careers :: "assessment_data \<Rightarrow> string list" where
  "potential_careers a =
     careers_for interest_career_map (get_or (interests a) []) @
     careers_for skill_career_map (get_or (technical_skills a) [])"

definition default_careers :: "string list" where
  "default_careers =
     [''Project Manager'', ''Business Analyst'', ''Marketing Specialist'', ''Operations Manager'']"

definition candidate_order :: "(string list \<Rightarrow> string list) \<Rightarrow> assessment_data \<Rightarrow> string list" where
  "candidate_order set_iter a =
     (if potential_careers a = [] then default_careers else set_iter (potential_careers a))"

text \<open>The body of the scoring loop: the score one career receives.\<close>

definition career_score :: "assessment_data \<Rightarrow> string \<Rightarrow> int" where
  "career_score a c =
     (let score = 50;
          ws = get_or (work_style a) ''Hybrid'';
          score = (if ws = ''Fully Remote'' \<and> c \<in> set [''Software Developer'', ''Data Scientist'', ''UX/UI Designer'', ''Content Creator'']
                   then score + 20
                   else if ws = ''Fully In-Office'' \<and> c \<in> set [''Healthcare Administrator'', ''Teacher'', ''Mechanical Engineer'', ''Registered Nurse'']
                   then score + 20 else score);
          ts = get_or (team_size a) ''Medium Team (6-15)'';
          score = (if ts = ''Solo Work'' \<and> c \<in> set [''Writer'', ''Research Scientist'', ''Graphic Designer'']
                   then score + 15
                   else if ts = ''Large Team (16-50)'' \<and> c \<in> set [''Project Manager'', ''Operations Manager'', ''Product Manager'']
                   then score + 15 else score);
          cf = get_or (career_focus a) ''Work-Life Balance'';
          score = (if cf = ''High Income'' \<and> c \<in> set [''Investment Banker'', ''Software Engineer'', ''Management Consultant'']
                   then score + 25
                   else if cf = ''Work-Life Balance'' \<and> c \<in> set [''Technical Writer'', ''UX/UI Designer'', ''Data Analyst'']
                   then score + 25
                   else if cf = ''Making an Impact'' \<and> c \<in> set [''Social Worker'', ''Non-profit Manager'', ''Environmental Scientist'']
                   then score + 25 else score);
          rt = get_or (risk_tolerance a) ''Neutral'';
          score = (if rt = ''Very Risk-Tolerant'' \<and> c \<in> set [''Entrepreneur'', ''Investment Banker'', ''Management Consultant'']
                   then score + 20
                   else if rt = ''Very Risk-Averse'' \<and> c \<in> set [''Accountant'', ''Government Administrator'', ''Teacher'']
                   then score + 20 else score)
      in score)"

text \<open>The dict \<open>career_scores\<close> after the loop over the candidates.\<close>

definition career_scores :: "assessment_data \<Rightarrow> string list \<Rightarrow> (string \<times> int) list" where
  "career_scores a cands = fold (\<lambda>c d. AList.update c (career_score a c) d) cands []"

definition make_recommendation :: "string \<times> int \<Rightarrow> recommendation" where
  "make_recommendation item =
     \<lparr>career = fst item,
      match_percentage = min 95 (snd item),
      description = dict_get descriptions (fst item) ''A professional role in your field of interest.'',
      key_skills = get_key_skills_for_career (fst item),
      salary_range = get_salary_range_for_career (fst item),
      growth_outlook = get_growth_outlook_for_career (fst item)\<rparr>"

definition generate_career_recommendations ::
  "(string list \<Rightarrow> string list) \<Rightarrow> assessment_data \<Rightarrow> recommendation list" where
  "generate_career_recommendations set_iter a =
     (let sorted_careers = sorted_by_score_reverse (career_scores a (candidate_order set_iter a))
      in map make_recommendation (take 5 sorted_careers))"

section \<open>JSON values, exceptions and the library boundary\<close>

text \<open>
  Texts (\<open>str\<close>) and byte strings are both lists of bytes here, a text being the list of
  its UTF-8 bytes. The keywords, the fence, the braces and the labels the program
  searches for are ASCII, and a byte below 128 never occurs inside the encoding of
  another character, so searching, splitting and concatenating give the same text on
  the bytes as on the code points.

  The values \<open>json.loads\<close> returns. A Python \<open>int\<close> is unbounded; a \<open>float\<close> is a sign,
  a mantissa \<open>m\<close> and an exponent \<open>e\<close> (the value \<open>m * 2 ^ e\<close>), an infinity or NaN, which
  \<open>json.loads\<close> accepts. The program only tests whether a value is truthy.
\<close>

datatype py_float = FloatValue bool nat int | FloatInf bool | FloatNaN

datatype json =
    JNull
  | JBool bool
  | JNum int
  | JFloat py_float
  | JStr string
  | JArr "json list"
  | JObj "(string \<times> json) list"

fun float_truthy :: "py_float \<Rightarrow> bool" where
  "float_truthy (FloatValue negative m e) = (m \<noteq> 0)"
| "float_truthy (FloatInf negative) = True"
| "float_truthy FloatNaN = True"

fun truthy :: "json \<Rightarrow> bool" where
  "truthy JNull = False"
| "truthy (JBool b) = b"
| "truthy (JNum n) = (n \<noteq> 0)"
| "truthy (JFloat f) = float_truthy f"
| "truthy (JStr s) = (s \<noteq> [])"
| "truthy (JArr xs) = (xs \<noteq> [])"
| "truthy (JObj kvs) = (kvs \<noteq> [])"

text \<open>
  The exceptions that are instances of \<open>Exception\<close>, each with its message \<open>str(e)\<close>.
  \<open>JSONDecodeError\<close> and \<open>UnicodeDecodeError\<close> are subclasses of \<open>ValueError\<close>;
  \<open>OtherError\<close> stands for an instance of any class that is not listed and is not a
  subclass of \<open>ValueError\<close>, with the name of its class.
\<close>

datatype exn =
    JSONDecodeError string
  | UnicodeDecodeError string
  | ValueError string
  | RecursionError string
  | AttributeError string
  | TypeError string
  | OSError string
  | OtherError string string

fun exn_str :: "exn \<Rightarrow> string" where
  "exn_str (JSONDecodeError m) = m"
| "exn_str (UnicodeDecodeError m) = m"
| "exn_str (ValueError m) = m"
| "exn_str (RecursionError m) = m"
| "exn_str (AttributeError m) = m"
| "exn_str (TypeError m) = m"
| "exn_str (OSError m) = m"
| "exn_str (OtherError cls m) = m"

text \<open>\<open>isinstance(e, json.JSONDecodeError)\<close> and \<open>isinstance(e, ValueError)\<close>.\<close>

fun is_JSONDecodeError :: "exn \<Rightarrow> bool" where
  "is_JSONDecodeError (JSONDecodeError m) = True"
| "is_JSONDecodeError e = False"

fun is_ValueError :: "exn \<Rightarrow> bool" where
  "is_ValueError (JSONDecodeError m) = True"
| "is_ValueError (UnicodeDecodeError m) = True"
| "is_ValueError (ValueError m) = True"
| "is_ValueError e = False"

text \<open>
  The library functions the program calls on texts are parameters. \<open>str_lower\<close> is
  \<open>str.lower()\<close> and \<open>str_strip\<close> is \<open>str.strip()\<close>, both defined by the Unicode
  database and total. \<open>bytes_decode\<close> is \<open>bytes.decode("utf-8")\<close> and \<open>json_loads\<close> is
  \<open>json.loads\<close> on a \<open>str\<close>; each returns a value or raises (\<open>Inl\<close>) an exception:
  \<open>json.loads\<close> raises \<open>JSONDecodeError\<close> on a text that is not JSON, and also a plain
  \<open>ValueError\<close> on an integer literal beyond the digit limit and \<open>RecursionError\<close> on a
  text nested too deeply.
\<close>

record py_lib =
  str_lower :: "string \<Rightarrow> string"
  str_strip :: "string \<Rightarrow> string"
  bytes_decode :: "string \<Rightarrow> exn + string"
  json_loads :: "string \<Rightarrow> exn + json"

fun type_name :: "json \<Rightarrow> string" where
  "type_name JNull = ''NoneType''"
| "type_name (JBool b) = ''bool''"
| "type_name (JNum n) = ''int''"
| "type_name (JFloat f) = ''float''"
| "type_name (JStr s) = ''str''"
| "type_name (JArr xs) = ''list''"
| "type_name (JObj kvs) = ''dict''"

text \<open>\<open>data.get(key, dflt)\<close>: only a dict has the method.\<close>

fun json_get :: "json \<Rightarrow> string \<Rightarrow> json \<Rightarrow> exn + json" where
  "json_get (JObj kvs) key dflt = Inr (dict_get kvs key dflt)"
| "json_get v key dflt =
     Inl (AttributeError ([CHR 0x27] @ type_name v @ [CHR 0x27] @ '' object has no attribute '' @
                          [CHR 0x27] @ ''get'' @ [CHR 0x27]))"

section \<open>Keyword classifier: \<open>is_career_related_question\<close>\<close>

text \<open>
  \<open>prompt.lower()\<close> is the library's; \<open>keyword in prompt_lower\<close> is the substring test
  \<open>str_contains\<close>, and \<open>any(...)\<close> over the keyword list is \<^const>\<open>list_ex\<close>.
\<close>

fun str_contains :: "string \<Rightarrow> string \<Rightarrow> bool" where
  "str_contains sub [] = (sub = [])"
| "str_contains sub (c # cs) = (prefix sub (c # cs) \<or> str_contains sub cs)"

definition career_keywords :: "string list" where
  "career_keywords = [
     ''career'', ''job'', ''work'', ''employment'', ''profession'', ''occupation'',
     ''vocation'', ''resume'', ''cv'', ''interview'', ''hiring'', ''recruitment'',
     ''salary'', ''pay'', ''wage'', ''skills'', ''qualification'', ''education'',
     ''training'', ''development'', ''promotion'', ''industry'', ''field'', ''sector'',
     ''company'', ''organization'', ''business'', ''enterprise'', ''networking'', ''professional'',
     ''expertise'', ''experience'', ''background'', ''path'', ''advancement'', ''growth'',
     ''opportunity'', ''position'', ''role'', ''title'', ''function'', ''department'',
     ''team'', ''management'', ''leadership'', ''supervisor'', ''boss'', ''colleague'',
     ''workplace'', ''environment'', ''culture'', ''benefits'', ''perks'', ''flexibility'',
     ''remote'', ''freelance'', ''contract'', ''full-time'', ''part-time'', ''internship'',
     ''apprenticeship'', ''entrepreneur'', ''startup'', ''business owner'', ''self-employed'', ''consultant'',
     ''coach'', ''mentor'', ''advisor'', ''guidance'', ''counseling'', ''planning'',
     ''strategy'', ''goal'', ''objective'', ''ambition'', ''aspiration'', ''dream'',
     ''passion'', ''interest'', ''strength'', ''weakness'', ''challenge'', ''obstacle'',
     ''solution'', ''advice'', ''recommendation'', ''suggestion'', ''tip'', ''hint'',
     ''best practice'', ''technique'', ''method'', ''approach'', ''tool'', ''resource'',
     ''platform'', ''website'', ''course'', ''certification'', ''degree'', ''diploma'',
     ''certificate'', ''license'', ''accreditation'', ''recognition'', ''award'']"

definition is_career_related_question :: "py_lib \<Rightarrow> string \<Rightarrow> bool" where
  "is_career_related_question L prompt =
     (let prompt_lower = str_lower L prompt
      in list_ex (\<lambda>keyword. str_contains keyword prompt_lower) career_keywords)"

section \<open>Conversation context: the prompt sent to the model\<close>

text \<open>
  A message of \<open>st.session_state.messages\<close>; only the keys \<open>role\<close> and \<open>content\<close> are
  read when the prompt is built. The same lines build the prompt in
  \<open>get_ollama_response_stream\<close> and in \<open>display_chat_interface\<close>; the two system prompts
  differ in the indentation of their continuation lines.
\<close>

record message =
  role :: string
  content :: string

definition system_prompt :: string where
  "system_prompt =
     ''You are an AI Career Mentor, an expert in career guidance, job market '' @
     ''trends, skill development, and professional growth. \<newline>'' @
     ''    Your role is to provide personalized career advice ONLY on '' @
     ''career-related topics.\<newline>'' @
     ''    \<newline>'' @
     ''    STRICTLY FOCUS ON CAREER-RELATED QUESTIONS. If a user asks about '' @
     ''non-career topics, politely redirect them to ask career-related '' @
     ''questions.\<newline>'' @
     ''    \<newline>'' @
     ''    Provide thoughtful, detailed, and actionable career advice.\<newline>'' @
     ''    Focus on practical steps, skill development opportunities, career '' @
     ''paths, and industry insights.\<newline>'' @
     ''    Be encouraging but realistic about career prospects and '' @
     ''requirements.''"

definition chat_system_prompt :: string where
  "chat_system_prompt =
     ''You are an AI Career Mentor, an expert in career guidance, job market '' @
     ''trends, skill development, and professional growth. \<newline>'' @
     ''                Your role is to provide personalized career advice '' @
     ''ONLY on career-related topics.\<newline>'' @
     ''                \<newline>'' @
     ''                STRICTLY FOCUS ON CAREER-RELATED QUESTIONS. If a user '' @
     ''asks about non-career topics, politely redirect them to ask '' @
     ''career-related questions.\<newline>'' @
     ''                \<newline>'' @
     ''                Provide thoughtful, detailed, and actionable career '' @
     ''advice.\<newline>'' @
     ''                Focus on practical steps, skill development '' @
     ''opportunities, career paths, and industry insights.\<newline>'' @
     ''                Be encouraging but realistic about career prospects '' @
     ''and requirements.''"

definition build_full_prompt :: "string \<Rightarrow> message list \<Rightarrow> string \<Rightarrow> string" where
  "build_full_prompt preamble messages prompt =
     (let full_prompt = preamble @ ''\<newline>\<newline>'';
          full_prompt =
            fold (\<lambda>msg full_prompt.
                    if role msg = ''user'' then full_prompt @ ''User: '' @ content msg @ ''\<newline>''
                    else if role msg = ''assistant''
                    then full_prompt @ ''Career Mentor: '' @ content msg @ ''\<newline>''
                    else full_prompt)
                 messages full_prompt
      in full_prompt @ ''User: '' @ prompt @ ''\<newline>Career Mentor:'')"

text \<open>
  \<open>display_chat_interface\<close> appends the user's message to the session messages and only
  then builds the prompt from them.
\<close>

definition display_chat_full_prompt :: "message list \<Rightarrow> string \<Rightarrow> string" where
  "display_chat_full_prompt messages prompt =
     build_full_prompt chat_system_prompt
       (messages @ [\<lparr>role = ''user'', content = prompt\<rparr>]) prompt"

section \<open>Streaming relay: \<open>get_ollama_response_stream\<close>\<close>

text \<open>
  The model server as the generator sees it. A request either raises (connection
  refused, time-out while waiting for the response) or returns a status and a body that
  is read line by line; each \<open>res.readline()\<close> returns a line or raises (time-out in the
  middle of the stream). After the last event \<open>readline\<close> returns the empty line of the
  end of the stream.
\<close>

datatype read_event = Line string | ReadError exn

datatype http_result = RequestError exn | Response nat "read_event list"

record generate_request =
  req_model :: string
  req_prompt :: string
  req_stream :: bool

record relay_env =
  lib :: py_lib
  session_messages :: "message list"
  ollama :: "generate_request \<Rightarrow> http_result"

fun str_nat :: "nat \<Rightarrow> string" where
  "str_nat n =
     (if n < 10 then [''0123456789'' ! n] else str_nat (n div 10) @ [''0123456789'' ! (n mod 10)])"

definition warning_sign :: string where
  "warning_sign = [CHR 0xE2, CHR 0x9A, CHR 0xA0, CHR 0xEF, CHR 0xB8, CHR 0x8F]"

definition refusal_chunk :: json where
  "refusal_chunk =
     JStr (''I'' @ [CHR 0x27] @ ''m designed to help with career-related questions only. '' @
           ''Please ask about careers, job searching, skills development, resume writing, '' @
           ''interviews, or other professional topics.'')"

definition status_chunk :: "nat \<Rightarrow> json" where
  "status_chunk status =
     JStr (warning_sign @ '' Error: Received status code '' @ str_nat status @ '' from Ollama'')"

definition failure_chunk :: "exn \<Rightarrow> json" where
  "failure_chunk e =
     JStr (warning_sign @ '' Could not connect to Ollama. Make sure it is running. Error: '' @
           exn_str e)"

text \<open>
  The \<open>while True\<close> loop from one suspension to the next: it runs until a chunk is
  yielded (with the events still unread), the stream ends, or an exception leaves the
  loop. The handler inside the loop catches \<open>JSONDecodeError\<close> only (\<open>continue\<close>); any
  other exception of \<open>decode\<close> or \<open>json.loads\<close> and the \<open>AttributeError\<close> of \<open>data.get\<close>
  leave the loop.
\<close>

datatype loop_result = Yielded json "read_event list" | EndOfStream | Raised exn

fun read_loop :: "py_lib \<Rightarrow> read_event list \<Rightarrow> loop_result" where
  "read_loop L [] = EndOfStream"
| "read_loop L (ReadError e # evs) = Raised e"
| "read_loop L (Line line # evs) =
     (if line = [] then EndOfStream
      else case bytes_decode L line of
             Inl e \<Rightarrow> if is_JSONDecodeError e then read_loop L evs else Raised e
           | Inr text \<Rightarrow>
               (case json_loads L text of
                  Inl e \<Rightarrow> if is_JSONDecodeError e then read_loop L evs else Raised e
                | Inr data \<Rightarrow>
                    (case json_get data ''response'' (JStr []) of
                       Inl e \<Rightarrow> if is_JSONDecodeError e then read_loop L evs else Raised e
                     | Inr chunk \<Rightarrow>
                         if truthy chunk then Yielded chunk evs else read_loop L evs)))"

text \<open>
  The generator as a state machine. \<open>pc\<close> is the \<open>yield\<close> at which it is suspended;
  \<open>conn_created\<close> and \<open>conn_closed\<close> record that \<open>HTTPConnection(...)\<close> and
  \<open>conn.close()\<close> have been executed.
\<close>

datatype gen_pc =
    NotStarted
  | AtRefusalYield
  | AtChunkYield "read_event list"
  | AtStatusYield
  | AtFailureYield
  | Finished

record gen_state =
  pc :: gen_pc
  conn_created :: bool
  conn_closed :: bool

definition gen_init :: gen_state where
  "gen_init = \<lparr>pc = NotStarted, conn_created = False, conn_closed = False\<rparr>"

definition resume_reading :: "py_lib \<Rightarrow> gen_state \<Rightarrow> read_event list \<Rightarrow> json option \<times> gen_state" where
  "resume_reading L st evs =
     (case read_loop L evs of
        Yielded chunk rest \<Rightarrow> (Some chunk, st\<lparr>pc := AtChunkYield rest\<rparr>)
      | EndOfStream \<Rightarrow> (None, st\<lparr>pc := Finished, conn_closed := True\<rparr>)
      | Raised e \<Rightarrow> (Some (failure_chunk e), st\<lparr>pc := AtFailureYield\<rparr>))"

definition stream_request :: "relay_env \<Rightarrow> string \<Rightarrow> string \<Rightarrow> generate_request" where
  "stream_request env prompt model =
     \<lparr>req_model = model,
      req_prompt = build_full_prompt system_prompt (session_messages env) prompt,
      req_stream = True\<rparr>"

text \<open>
  \<open>next(gen)\<close>: run to the next \<open>yield\<close> (\<open>Some chunk\<close>) or to the end (\<open>None\<close>, Python's
  \<open>StopIteration\<close>).
\<close>

definition gen_next :: "relay_env \<Rightarrow> string \<Rightarrow> string \<Rightarrow> gen_state \<Rightarrow> json option \<times> gen_state" where
  "gen_next env prompt model st =
     (case pc st of
        NotStarted \<Rightarrow>
          if \<not> is_career_related_question (lib env) prompt
          then (Some refusal_chunk, st\<lparr>pc := AtRefusalYield\<rparr>)
          else (let st = st\<lparr>conn_created := True\<rparr>
                in case ollama env (stream_request env prompt model) of
                     RequestError e \<Rightarrow> (Some (failure_chunk e), st\<lparr>pc := AtFailureYield\<rparr>)
                   | Response status evs \<Rightarrow>
                       if status = 200 then resume_reading (lib env) st evs
                       else (Some (status_chunk status), st\<lparr>pc := AtStatusYield\<rparr>))
      | AtRefusalYield \<Rightarrow> (None, st\<lparr>pc := Finished\<rparr>)
      | AtChunkYield evs \<Rightarrow> resume_reading (lib env) st evs
      | AtStatusYield \<Rightarrow> (None, st\<lparr>pc := Finished, conn_closed := True\<rparr>)
      | AtFailureYield \<Rightarrow> (None, st\<lparr>pc := Finished\<rparr>)
      | Finished \<Rightarrow> (None, st))"

text \<open>
  \<open>gen.close()\<close>, also what happens when an abandoned generator is collected:
  \<open>GeneratorExit\<close> is raised at the suspended \<open>yield\<close>. It is not an \<open>Exception\<close>, so
  no handler of the function catches it, and the function has no \<open>finally\<close>: nothing
  more of the body runs.
\<close>

definition gen_close :: "gen_state \<Rightarrow> gen_state" where
  "gen_close st = st\<lparr>pc := Finished\<rparr>"

text \<open>The number of resumptions still possible, for the termination of draining.\<close>

definition pending :: "relay_env \<Rightarrow> string \<Rightarrow> string \<Rightarrow> gen_state \<Rightarrow> nat" where
  "pending env prompt model st =
     (case pc st of
        NotStarted \<Rightarrow>
          (case ollama env (stream_request env prompt model) of
             RequestError e \<Rightarrow> 3
           | Response status evs \<Rightarrow> length evs + 3)
      | AtRefusalYield \<Rightarrow> 1
      | AtChunkYield evs \<Rightarrow> length evs + 2
      | AtStatusYield \<Rightarrow> 1
      | AtFailureYield \<Rightarrow> 1
      | Finished \<Rightarrow> 0)"

text \<open>\<open>for chunk in gen\<close>: the consumer that runs the generator to its end.\<close>

function gen_drain :: "relay_env \<Rightarrow> string \<Rightarrow> string \<Rightarrow> gen_state \<Rightarrow> json list \<times> gen_state" where
  "gen_drain env prompt model st =
     (case gen_next env prompt model st of
        (None, st') \<Rightarrow> ([], st')
      | (Some chunk, st') \<Rightarrow>
          (case gen_drain env prompt model st' of (chunks, st'') \<Rightarrow> (chunk # chunks, st'')))"
  by pat_completeness auto
termination
proof (relation "measure (\<lambda>(env, prompt, model, st). pending env prompt model st)")
  show "wf (measure (\<lambda>(env, prompt, model, st). pending env prompt model st))"
    by simp
next
  fix env :: relay_env and prompt model :: string and st st' :: gen_state
    and x :: "json option" and chunk :: json
  assume split: "(x, st') = gen_next env prompt model st" and x: "x = Some chunk"
  have shorter: "length rest < length evs" if "read_loop L evs = Yielded c rest" for L evs c rest
    using that
  proof (induction evs)
    case Nil
    then show ?case by simp
  next
    case (Cons ev evs)
    then show ?case
      by (cases ev) (auto split: if_splits sum.splits)
  qed
  have reading: "pending env prompt model st2 < length evs + 2"
    if "resume_reading L st1 evs = (Some c, st2)" for L st1 evs c st2
    using that shorter[of L evs]
    by (auto simp: resume_reading_def pending_def split: loop_result.splits)
  from split x have next_eq: "gen_next env prompt model st = (Some chunk, st')"
    by simp
  have "pending env prompt model st' < pending env prompt model st"
  proof (cases "pc st")
    case NotStarted
    show ?thesis
    proof (cases "ollama env (stream_request env prompt model)")
      case (RequestError e)
      with NotStarted next_eq show ?thesis
        by (auto simp: gen_next_def pending_def Let_def split: if_splits)
    next
      case (Response status evs)
      with NotStarted next_eq reading[of "lib env" "st\<lparr>conn_created := True\<rparr>" evs chunk st']
      show ?thesis
        by (auto simp: gen_next_def pending_def Let_def split: if_splits)
    qed
  next
    case (AtChunkYield evs)
    with next_eq reading[of "lib env" st evs chunk st'] show ?thesis
      by (auto simp: gen_next_def pending_def)
  qed (use next_eq in \<open>auto simp: gen_next_def\<close>)
  then show "((env, prompt, model, st'), (env, prompt, model, st))
               \<in> measure (\<lambda>(env, prompt, model, st). pending env prompt model st)"
    by simp
qed

text \<open>A consumer that takes at most \<open>n\<close> chunks and then closes the generator.\<close>

fun gen_take :: "nat \<Rightarrow> relay_env \<Rightarrow> string \<Rightarrow> string \<Rightarrow> gen_state \<Rightarrow> json list \<times> gen_state" where
  "gen_take 0 env prompt model st = ([], gen_close st)"
| "gen_take (Suc n) env prompt model st =
     (case gen_next env prompt model st of
        (None, st') \<Rightarrow> ([], st')
      | (Some chunk, st') \<Rightarrow>
          (case gen_take n env prompt model st' of (chunks, st'') \<Rightarrow> (chunk # chunks, st'')))"

text \<open>
  The reading loop run to its end in one piece: the chunks it yields and how it ends.
\<close>

fun stream_chunks :: "py_lib \<Rightarrow> read_event list \<Rightarrow> json list \<times> exn option" where
  "stream_chunks L [] = ([], None)"
| "stream_chunks L (ReadError e # evs) = ([], Some e)"
| "stream_chunks L (Line line # evs) =
     (if line = [] then ([], None)
      else case bytes_decode L line of
             Inl e \<Rightarrow> if is_JSONDecodeError e then stream_chunks L evs else ([], Some e)
           | Inr text \<Rightarrow>
               (case json_loads L text of
                  Inl e \<Rightarrow> if is_JSONDecodeError e then stream_chunks L evs else ([], Some e)
                | Inr data \<Rightarrow>
                    (case json_get data ''response'' (JStr []) of
                       Inl e \<Rightarrow> if is_JSONDecodeError e then stream_chunks L evs else ([], Some e)
                     | Inr chunk \<Rightarrow>
                         if truthy chunk
                         then (case stream_chunks L evs of (chunks, end) \<Rightarrow> (chunk # chunks, end))
                         else stream_chunks L evs)))"

section \<open>Resume analysis: extracting the JSON payload\<close>

text \<open>
  \<open>re.search(r'```json(.*?)```', text, re.DOTALL)\<close>, group 1: the start positions are
  tried from left to right; at a position where \<open>```json\<close> stands, the lazy group is the
  text up to the first \<open>```\<close> after it, and without such a closing fence the search goes
  on at the next position.
\<close>

definition fence :: string where
  "fence = [CHR 0x60, CHR 0x60, CHR 0x60]"

fun until_sub :: "string \<Rightarrow> string \<Rightarrow> string option" where
  "until_sub sub [] = (if sub = [] then Some [] else None)"
| "until_sub sub (c # cs) =
     (if prefix sub (c # cs) then Some [] else map_option ((#) c) (until_sub sub cs))"

fun re_search_json_block :: "string \<Rightarrow> string option" where
  "re_search_json_block [] = None"
| "re_search_json_block (c # cs) =
     (if prefix (fence @ ''json'') (c # cs)
      then (case until_sub fence (drop 7 (c # cs)) of
              Some g \<Rightarrow> Some g
            | None \<Rightarrow> re_search_json_block cs)
      else re_search_json_block cs)"

text \<open>
  \<open>s.find(sub)\<close> and \<open>s.rfind(sub)\<close>: the first and the last index, or \<open>-1\<close>. The
  indices count bytes where Python counts code points; they are only compared with
  \<open>-1\<close> and handed to the slice of the same text, which denotes the same span.
\<close>

fun str_find :: "string \<Rightarrow> string \<Rightarrow> int" where
  "str_find [] sub = (if sub = [] then 0 else - 1)"
| "str_find (c # cs) sub =
     (if prefix sub (c # cs) then 0
      else (let i = str_find cs sub in if i = - 1 then - 1 else i + 1))"

fun str_rfind :: "string \<Rightarrow> string \<Rightarrow> int" where
  "str_rfind [] sub = (if sub = [] then 0 else - 1)"
| "str_rfind (c # cs) sub =
     (let i = str_rfind cs sub
      in if i \<noteq> - 1 then i + 1 else if prefix sub (c # cs) then 0 else - 1)"

text \<open>\<open>s[a:b]\<close>: a negative index counts from the end, and both are clamped to the text.\<close>

definition slice_index :: "'a list \<Rightarrow> int \<Rightarrow> nat" where
  "slice_index s i =
     (if i < 0 then nat (max 0 (int (length s) + i)) else min (nat i) (length s))"

definition py_slice :: "'a list \<Rightarrow> int \<Rightarrow> int \<Rightarrow> 'a list" where
  "py_slice s a b = take (slice_index s b - slice_index s a) (drop (slice_index s a) s)"

definition fallback_analysis :: json where
  "fallback_analysis =
     JObj [(''overall_score'', JNum 50),
           (''strengths'', JArr [JStr ''Unable to analyze strengths'']),
           (''improvements'', JArr [JStr ''Unable to analyze improvements'']),
           (''skills'', JObj [(''technical'', JArr []), (''soft'', JArr [])]),
           (''experience_level'', JStr ''Unknown''),
           (''career_suggestions'', JArr [JStr ''Unable to suggest careers'']),
           (''keywords_to_add'', JArr []),
           (''formatting_feedback'', JStr ''Unable to analyze formatting'')]"

text \<open>The text handed to \<open>json.loads\<close>, or the \<open>ValueError\<close> the block raises itself.\<close>

definition find_json_text :: "py_lib \<Rightarrow> string \<Rightarrow> exn + string" where
  "find_json_text L response_text =
     (case re_search_json_block response_text of
        Some g \<Rightarrow> Inr (str_strip L g)
      | None \<Rightarrow>
          (let start_idx = str_find response_text ''{'';
               end_idx = str_rfind response_text ''}'' + 1
           in if start_idx \<noteq> - 1 \<and> end_idx \<noteq> - 1
              then Inr (py_slice response_text start_idx end_idx)
              else Inl (ValueError ''No JSON found in response'')))"

text \<open>
  The inner \<open>try\<close> of \<open>analyze_resume\<close>: its handler catches \<open>JSONDecodeError\<close> and
  \<open>ValueError\<close> (with its subclasses) and returns the fallback record; any other
  exception leaves it.
\<close>

definition inner_handler :: "exn + json \<Rightarrow> exn + json" where
  "inner_handler r =
     (case r of
        Inl e \<Rightarrow> if is_JSONDecodeError e \<or> is_ValueError e then Inr fallback_analysis else Inl e
      | Inr analysis \<Rightarrow> Inr analysis)"

definition inner_try :: "py_lib \<Rightarrow> string \<Rightarrow> exn + json" where
  "inner_try L response_text =
     inner_handler
       (case find_json_text L response_text of
          Inl e \<Rightarrow> Inl e
        | Inr json_text \<Rightarrow> json_loads L json_text)"

text \<open>
  The inner \<open>try\<close> inside the outer one: the outer handler catches every \<open>Exception\<close>
  that leaves the inner \<open>try\<close> and returns the same fallback record.
\<close>

definition extract_analysis :: "py_lib \<Rightarrow> string \<Rightarrow> json" where
  "extract_analysis L response_text =
     (case inner_try L response_text of
        Inl e \<Rightarrow> fallback_analysis
      | Inr analysis \<Rightarrow> analysis)"

text \<open>
  \<open>analyze_resume\<close> from the response on: the request raises or returns a body. Every
  exception outside the inner \<open>try\<close> (of the request, of \<open>decode\<close>, of \<open>json.loads\<close>, of
  \<open>result.get\<close>, and the \<open>TypeError\<close> of \<open>re.search\<close> on a \<open>response\<close> that is not a
  string) ends in the outer handler, which returns the same fallback record.
\<close>

datatype http_body = BodyError exn | Body string

definition analyze_resume :: "py_lib \<Rightarrow> http_body \<Rightarrow> json" where
  "analyze_resume L res =
     (case res of
        BodyError e \<Rightarrow> fallback_analysis
      | Body data \<Rightarrow>
          (case bytes_decode L data of
             Inl e \<Rightarrow> fallback_analysis
           | Inr text \<Rightarrow>
               (case json_loads L text of
                  Inl e \<Rightarrow> fallback_analysis
                | Inr result \<Rightarrow>
                    (case json_get result ''response'' (JStr []) of
                       Inl e \<Rightarrow> fallback_analysis
                     | Inr (JStr response_text) \<Rightarrow> extract_analysis L response_text
                     | Inr other \<Rightarrow> fallback_analysis))))"

section \<open>Auxiliary definitions for the proofs\<close>

text \<open>
  The shape of the scoring loop's body with its nine conditions as parameters, and the
  careers that each of the four preferences can reward.
\<close>

definition bonus_shape ::
  "bool \<Rightarrow> bool \<Rightarrow> bool \<Rightarrow> bool \<Rightarrow> bool \<Rightarrow> bool \<Rightarrow> bool \<Rightarrow> bool \<Rightarrow> bool \<Rightarrow> int" where
  "bonus_shape p1 q1 p2 q2 p3 q3 r3 p4 q4 =
     (let score = 50;
          score = (if p1 then score + 20 else if q1 then score + 20 else score);
          score = (if p2 then score + 15 else if q2 then score + 15 else score);
          score = (if p3 then score + 25 else if q3 then score + 25
                   else if r3 then score + 25 else score);
          score = (if p4 then score + 20 else if q4 then score + 20 else score)
      in score)"

definition work_list :: "string list" where
  "work_list =
     [''Software Developer'', ''Data Scientist'', ''UX/UI Designer'', ''Content Creator'',
      ''Healthcare Administrator'', ''Teacher'', ''Mechanical Engineer'', ''Registered Nurse'']"

definition team_list :: "string list" where
  "team_list =
     [''Writer'', ''Research Scientist'', ''Graphic Designer'',
      ''Project Manager'', ''Operations Manager'', ''Product Manager'']"

definition focus_list :: "string list" where
  "focus_list =
     [''Investment Banker'', ''Software Engineer'', ''Management Consultant'',
      ''Technical Writer'', ''UX/UI Designer'', ''Data Analyst'',
      ''Social Worker'', ''Non-profit Manager'', ''Environmental Scientist'']"

definition risk_list :: "string list" where
  "risk_list =
     [''Entrepreneur'', ''Investment Banker'', ''Management Consultant'',
      ''Accountant'', ''Government Administrator'', ''Teacher'']"

text \<open>Concrete inputs for the examples.\<close>

definition example_answers :: assessment_data where
  "example_answers =
     \<lparr>interests = Some [''Technology''], technical_skills = Some [''Programming''],
      work_style = Some ''Fully Remote'', team_size = Some ''Solo Work'',
      career_focus = Some ''High Income'', risk_tolerance = Some ''Neutral''\<rparr>"

definition empty_answers :: assessment_data where
  "empty_answers =
     \<lparr>interests = Some [], technical_skills = Some [],
      work_style = Some ''Hybrid'', team_size = Some ''Large Team (16-50)'',
      career_focus = Some ''Job Security'', risk_tolerance = Some ''Neutral''\<rparr>"

text \<open>The line the specification gives for one turn of the history.\<close>

definition turn_line :: "message \<Rightarrow> string" where
  "turn_line m =
     (if role m = ''user'' then ''User'' else ''Career Mentor'') @ '': '' @ content m @ ''\<newline>''"

definition example_history :: "message list" where
  "example_history =
     [\<lparr>role = ''user'', content = ''Hi''\<rparr>, \<lparr>role = ''assistant'', content = ''Hello''\<rparr>]"

text \<open>The number that a text of decimal digits denotes.\<close>

definition digit_value :: "char \<Rightarrow> nat" where
  "digit_value c = (case map_of (zip ''0123456789'' [0 ..< 10]) c of None \<Rightarrow> 0 | Some d \<Rightarrow> d)"

definition decimal_value :: "string \<Rightarrow> nat" where
  "decimal_value s = foldl (\<lambda>acc c. 10 * acc + digit_value c) 0 s"

text \<open>
  What draining gives once the reading loop has run: the chunks of the loop, followed by
  the failure chunk when the loop was left by an exception; \<open>conn.close()\<close> is reached
  only when it was not.
\<close>

definition drained :: "gen_state \<Rightarrow> json list \<times> exn option \<Rightarrow> json list \<times> gen_state" where
  "drained st r =
     (case r of
        (chunks, None) \<Rightarrow> (chunks, st\<lparr>pc := Finished, conn_closed := True\<rparr>)
      | (chunks, Some e) \<Rightarrow> (chunks @ [failure_chunk e], st\<lparr>pc := Finished\<rparr>))"

text \<open>
  The specification's reading of a line: the text fragment of a line that parses as a
  record with a \<open>response\<close> text, and nothing for any other line.
\<close>

definition line_fragment :: "py_lib \<Rightarrow> string \<Rightarrow> string option" where
  "line_fragment L line =
     (case bytes_decode L line of
        Inl e \<Rightarrow> None
      | Inr text \<Rightarrow>
          (case json_loads L text of
             Inl e \<Rightarrow> None
           | Inr (JObj kvs) \<Rightarrow>
               (case map_of kvs ''response'' of Some (JStr s) \<Rightarrow> Some s | _ \<Rightarrow> None)
           | Inr other \<Rightarrow> None))"

definition fragments :: "py_lib \<Rightarrow> string list \<Rightarrow> string list" where
  "fragments L lines = List.map_filter (line_fragment L) lines"

text \<open>
  A line of a well-formed stream: not empty, valid UTF-8, and either a text on which
  \<open>json.loads\<close> raises \<open>JSONDecodeError\<close> or a record whose \<open>response\<close>, when present, is
  a text.
\<close>

definition record_line :: "py_lib \<Rightarrow> string \<Rightarrow> bool" where
  "record_line L line =
     (line \<noteq> [] \<and>
      (case bytes_decode L line of
         Inl e \<Rightarrow> False
       | Inr text \<Rightarrow>
           (case json_loads L text of
              Inl e \<Rightarrow> is_JSONDecodeError e
            | Inr (JObj kvs) \<Rightarrow>
                (case map_of kvs ''response'' of
                   None \<Rightarrow> True | Some (JStr s) \<Rightarrow> True | Some other \<Rightarrow> False)
            | Inr other \<Rightarrow> False)))"

text \<open>
  A stand-in for the library that agrees with it on the texts of the examples, which
  are ASCII: lower-casing of the letters \<open>A\<close> to \<open>Z\<close>, stripping of the ASCII white
  space, and the lines and payloads of the examples as JSON.
\<close>

definition ascii_lower_char :: "char \<Rightarrow> char" where
  "ascii_lower_char c =
     (case map_of (zip ''ABCDEFGHIJKLMNOPQRSTUVWXYZ'' ''abcdefghijklmnopqrstuvwxyz'') c of
        None \<Rightarrow> c | Some l \<Rightarrow> l)"

definition ascii_lower :: "string \<Rightarrow> string" where
  "ascii_lower s = map ascii_lower_char s"

definition ascii_space :: "char \<Rightarrow> bool" where
  "ascii_space c \<longleftrightarrow>
     c \<in> set [CHR 0x20, CHR 0x09, CHR 0x0A, CHR 0x0B, CHR 0x0C, CHR 0x0D,
               CHR 0x1C, CHR 0x1D, CHR 0x1E, CHR 0x1F]"

definition ascii_strip :: "string \<Rightarrow> string" where
  "ascii_strip s = rev (dropWhile ascii_space (rev (dropWhile ascii_space s)))"

definition example_lib :: py_lib where
  \<open>example_lib =
     \<lparr>str_lower = ascii_lower,
      str_strip = ascii_strip,
      bytes_decode = (\<lambda>b. Inr b),
      json_loads = (\<lambda>s.
        if s = ''{"response":"A"}\<newline>'' then Inr (JObj [(''response'', JStr ''A'')])
        else if s = ''{"response":"B"}\<newline>'' then Inr (JObj [(''response'', JStr ''B'')])
        else if s = ''{"response":"","done":true}\<newline>''
        then Inr (JObj [(''response'', JStr []), (''done'', JBool True)])
        else if s = ''{"overall_score": 80}'' then Inr (JObj [(''overall_score'', JNum 80)])
        else Inl (JSONDecodeError ''Expecting value: line 1 column 1 (char 0)''))\<rparr>\<close>

definition example_env :: "http_result \<Rightarrow> relay_env" where
  "example_env res = \<lparr>lib = example_lib, session_messages = [], ollama = (\<lambda>request. res)\<rparr>"

definition example_chat_env :: relay_env where
  "example_chat_env =
     \<lparr>lib = example_lib, session_messages = example_history,
      ollama = (\<lambda>request. Response 200 [])\<rparr>"

definition line_A :: string where
  \<open>line_A = ''{"response":"A"}\<newline>''\<close>

definition line_B :: string where
  \<open>line_B = ''{"response":"B"}\<newline>''\<close>

definition line_done :: string where
  \<open>line_done = ''{"response":"","done":true}\<newline>''\<close>

definition line_bad :: string where
  "line_bad = ''not json\<newline>''"

declare gen_drain.simps [simp del]

text \<open>
  The specification's reading of the search for a fenced block. \<open>first_at sub s pre\<close>:
  the text \<open>sub\<close> stands in \<open>s\<close> right after \<open>pre\<close> and at no earlier position. A text has
  a fenced block labelled \<open>json\<close> with content \<open>g\<close> when its first \<open>```json\<close> is followed
  by a \<open>```\<close>, \<open>g\<close> being the text between that label and the first \<open>```\<close> after it. It
  has none when \<open>```json\<close> does not occur or no \<open>```\<close> follows its first occurrence.
\<close>

definition first_at :: "string \<Rightarrow> string \<Rightarrow> string \<Rightarrow> bool" where
  "first_at sub s pre \<longleftrightarrow>
     (\<exists>rest. s = pre @ sub @ rest) \<and>
     (\<forall>pre' rest'. s = pre' @ sub @ rest' \<longrightarrow> length pre \<le> length pre')"

definition fenced_json_block :: "string \<Rightarrow> string \<Rightarrow> bool" where
  "fenced_json_block t g \<longleftrightarrow>
     (\<exists>pre post. t = pre @ fence @ ''json'' @ g @ fence @ post \<and>
        first_at (fence @ ''json'') t pre \<and> first_at fence (g @ fence @ post) g)"

definition no_fenced_json_block :: "string \<Rightarrow> bool" where
  "no_fenced_json_block t \<longleftrightarrow>
     \<not> sublist (fence @ ''json'') t \<or>
     (\<exists>pre rest. t = pre @ fence @ ''json'' @ rest \<and>
        first_at (fence @ ''json'') t pre \<and> \<not> sublist fence rest)"

text \<open>The model's answer of the specification's example, and texts for the other cases.\<close>

definition example_response :: string where
  \<open>example_response = ''prefix '' @ fence @ ''json {"overall_score": 80} '' @ fence @ '' suffix''\<close>

definition example_payload :: string where
  \<open>example_payload = ''{"overall_score": 80}''\<close>

definition example_plain_response :: string where
  "example_plain_response = ''I could not read this resume.''"

text \<open>
  A text with single backticks before its fenced block, and a text whose fence is never
  closed.
\<close>

definition tick_response :: string where
  \<open>tick_response =
     ''see '' @ [CHR 0x60] @ ''x'' @ [CHR 0x60] @ '': '' @ fence @ ''json {"overall_score": 80} '' @ fence\<close>

definition unclosed_response :: string where
  "unclosed_response = ''Here: '' @ fence @ ''json ''"

text \<open>Answers under which eight candidates tie.\<close>

definition tie_answers :: assessment_data where
  "tie_answers =
     \<lparr>interests = Some [''Technology'', ''Healthcare''], technical_skills = Some [],
      work_style = Some ''Hybrid'', team_size = Some ''Medium Team (6-15)'',
      career_focus = Some ''Job Security'', risk_tolerance = Some ''Neutral''\<rparr>"

section \<open>Properties of the recommendation scorer\<close>

lemma career_score_shape:
  "career_score a c = bonus_shape
     (get_or (work_style a) ''Hybrid'' = ''Fully Remote'' \<and> c \<in> set [''Software Developer'', ''Data Scientist'', ''UX/UI Designer'', ''Content Creator''])
     (get_or (work_style a) ''Hybrid'' = ''Fully In-Office'' \<and> c \<in> set [''Healthcare Administrator'', ''Teacher'', ''Mechanical Engineer'', ''Registered Nurse''])
     (get_or (team_size a) ''Medium Team (6-15)'' = ''Solo Work'' \<and> c \<in> set [''Writer'', ''Research Scientist'', ''Graphic Designer''])
     (get_or (team_size a) ''Medium Team (6-15)'' = ''Large Team (16-50)'' \<and> c \<in> set [''Project Manager'', ''Operations Manager'', ''Product Manager''])
     (get_or (career_focus a) ''Work-Life Balance'' = ''High Income'' \<and> c \<in> set [''Investment Banker'', ''Software Engineer'', ''Management Consultant''])
     (get_or (career_focus a) ''Work-Life Balance'' = ''Work-Life Balance'' \<and> c \<in> set [''Technical Writer'', ''UX/UI Designer'', ''Data Analyst''])
     (get_or (career_focus a) ''Work-Life Balance'' = ''Making an Impact'' \<and> c \<in> set [''Social Worker'', ''Non-profit Manager'', ''Environmental Scientist''])
     (get_or (risk_tolerance a) ''Neutral'' = ''Very Risk-Tolerant'' \<and> c \<in> set [''Entrepreneur'', ''Investment Banker'', ''Management Consultant''])
     (get_or (risk_tolerance a) ''Neutral'' = ''Very Risk-Averse'' \<and> c \<in> set [''Accountant'', ''Government Administrator'', ''Teacher''])"
  unfolding career_score_def bonus_shape_def Let_def by (rule refl)

lemma bonus_shape_ge: "50 \<le> bonus_shape p1 q1 p2 q2 p3 q3 r3 p4 q4"
  by (simp add: bonus_shape_def Let_def)

lemma bonus_shape_le:
  assumes "p2 \<or> q2 \<Longrightarrow> \<not> (p1 \<or> q1) \<and> \<not> (p3 \<or> q3 \<or> r3) \<and> \<not> (p4 \<or> q4)"
    and "\<not> ((p1 \<or> q1) \<and> (p3 \<or> q3 \<or> r3) \<and> (p4 \<or> q4))"
  shows "bonus_shape p1 q1 p2 q2 p3 q3 r3 p4 q4 \<le> 95"
  using assms by (auto simp: bonus_shape_def Let_def)

lemma bonus_shape_le_lists:
  assumes "p1 \<or> q1 \<Longrightarrow> W" "p2 \<or> q2 \<Longrightarrow> T" "p3 \<or> q3 \<or> r3 \<Longrightarrow> F" "p4 \<or> q4 \<Longrightarrow> R"
    and "T \<Longrightarrow> \<not> W \<and> \<not> F \<and> \<not> R" and "\<not> (W \<and> F \<and> R)"
  shows "bonus_shape p1 q1 p2 q2 p3 q3 r3 p4 q4 \<le> 95"
  using assms by (intro bonus_shape_le) blast+

text \<open>Every score is at least the base score.\<close>

lemma career_score_ge: "50 \<le> career_score a c"
  unfolding career_score_shape by (rule bonus_shape_ge)

lemma team_disj:
  "c \<in> set team_list \<Longrightarrow> c \<notin> set work_list \<and> c \<notin> set focus_list \<and> c \<notin> set risk_list"
  unfolding team_list_def work_list_def focus_list_def risk_list_def by auto

lemma three_disj: "\<not> (c \<in> set work_list \<and> c \<in> set focus_list \<and> c \<in> set risk_list)"
  unfolding team_list_def work_list_def focus_list_def risk_list_def by auto

text \<open>
  No career collects more than 45 bonus points: the lists of the four preferences
  overlap too little. So the cap of 95 never lowers a score.
\<close>

lemma career_score_le: "career_score a c \<le> 95"
  unfolding career_score_shape
proof (rule bonus_shape_le_lists[where W = "c \<in> set work_list" and T = "c \<in> set team_list"
        and F = "c \<in> set focus_list" and R = "c \<in> set risk_list"])
  show "c \<in> set team_list \<Longrightarrow> c \<notin> set work_list \<and> c \<notin> set focus_list \<and> c \<notin> set risk_list"
    by (rule team_disj)
  show "\<not> (c \<in> set work_list \<and> c \<in> set focus_list \<and> c \<in> set risk_list)"
    by (rule three_disj)
qed (auto simp: work_list_def team_list_def focus_list_def risk_list_def)

lemma update_entries:
  "x \<in> set (AList.update k v al) \<Longrightarrow> x = (k, v) \<or> x \<in> set al"
  by (induction al) (auto split: if_splits)

lemma fold_update_entries:
  "\<forall>x \<in> set d. snd x = f (fst x) \<Longrightarrow>
   \<forall>x \<in> set (fold (\<lambda>c d. AList.update c (f c) d) cands d). snd x = f (fst x)"
proof (induction cands arbitrary: d)
  case Nil
  then show ?case by simp
next
  case (Cons c cands)
  have "\<forall>x \<in> set (AList.update c (f c) d). snd x = f (fst x)"
    using Cons.prems update_entries[of _ c "f c" d] by fastforce
  from Cons.IH[OF this] show ?case by simp
qed

lemma career_scores_snd:
  "x \<in> set (career_scores a cands) \<Longrightarrow> snd x = career_score a (fst x)"
  unfolding career_scores_def
  using fold_update_entries[of "[]" "career_score a" cands] by simp

lemma fold_update_distinct:
  "distinct (map fst d) \<Longrightarrow> distinct (map fst (fold (\<lambda>c d. AList.update c (f c) d) cands d))"
  by (induction cands arbitrary: d) (simp_all add: distinct_update)

lemma career_scores_distinct: "distinct (map fst (career_scores a cands))"
  unfolding career_scores_def by (rule fold_update_distinct) simp

lemma update_fresh: "k \<notin> fst ` set al \<Longrightarrow> AList.update k v al = al @ [(k, v)]"
  by (induction al) auto

lemma fold_update_fresh:
  "distinct (map fst d @ cands) \<Longrightarrow>
   fold (\<lambda>c d. AList.update c (f c) d) cands d = d @ map (\<lambda>c. (c, f c)) cands"
proof (induction cands arbitrary: d)
  case Nil
  then show ?case by simp
next
  case (Cons c cands)
  from Cons.prems have fresh: "c \<notin> fst ` set d" by auto
  from Cons.prems have "distinct (map fst (d @ [(c, f c)]) @ cands)" by auto
  from Cons.IH[OF this] show ?case by (simp add: update_fresh[OF fresh])
qed

text \<open>
  When the candidates are visited without repetition, as the iteration of a set does,
  the insertion order of \<open>career_scores\<close> is the order of the visit.
\<close>

lemma career_scores_insertion_order:
  "distinct cands \<Longrightarrow> career_scores a cands = map (\<lambda>c. (c, career_score a c)) cands"
  unfolding career_scores_def using fold_update_fresh[of "[]" cands "career_score a"] by simp

lemma recommendation_source:
  assumes "r \<in> set (generate_career_recommendations set_iter a)"
  obtains x where "x \<in> set (career_scores a (candidate_order set_iter a))"
    and "r = make_recommendation x"
proof -
  from assms obtain x
    where "x \<in> set (take 5 (sorted_by_score_reverse (career_scores a (candidate_order set_iter a))))"
      and r: "r = make_recommendation x"
    by (auto simp: generate_career_recommendations_def Let_def)
  then have "x \<in> set (career_scores a (candidate_order set_iter a))"
    using set_take_subset[of 5 "sorted_by_score_reverse (career_scores a (candidate_order set_iter a))"]
    by (auto simp: sorted_by_score_reverse_def)
  with r that show thesis by blast
qed

lemma recommendation_percentage:
  assumes "r \<in> set (generate_career_recommendations set_iter a)"
  shows "match_percentage r = min 95 (career_score a (career r))"
proof -
  from assms obtain x where x: "x \<in> set (career_scores a (candidate_order set_iter a))"
    and r: "r = make_recommendation x" by (rule recommendation_source)
  show ?thesis using career_scores_snd[OF x] by (simp add: r make_recommendation_def)
qed

lemma sorted_careers_desc:
  "sorted_wrt (\<lambda>x y. snd y \<le> snd x) (sorted_by_score_reverse items)"
proof -
  have "sorted (map (\<lambda>x. - snd x) (sort_key (\<lambda>x. - snd x) items))" by (rule sorted_sort_key)
  then show ?thesis by (simp add: sorted_by_score_reverse_def sorted_wrt_map)
qed

lemma sorted_wrt_take_prefix: "sorted_wrt R xs \<Longrightarrow> sorted_wrt R (take n xs)"
  by (metis append_take_drop_id sorted_wrt_append)

lemma example_candidates:
  "candidate_order remdups example_answers =
     [''IT Manager'', ''Cybersecurity Analyst'', ''Software Developer'', ''Data Scientist'',
      ''Software Engineer'', ''Web Developer'']"
  by (simp add: candidate_order_def potential_careers_def careers_for_def example_answers_def
      get_or_def interest_career_map_def skill_career_map_def)

lemma example_scores:
  "career_scores example_answers (candidate_order remdups example_answers) =
     [(''IT Manager'', 50), (''Cybersecurity Analyst'', 50), (''Software Developer'', 70),
      (''Data Scientist'', 70), (''Software Engineer'', 75), (''Web Developer'', 50)]"
  unfolding example_candidates
  by (simp add: career_scores_def career_score_def Let_def example_answers_def get_or_def)

lemma example_sorted:
  "take 5 (sorted_by_score_reverse
             (career_scores example_answers (candidate_order remdups example_answers))) =
     [(''Software Engineer'', 75), (''Software Developer'', 70), (''Data Scientist'', 70),
      (''IT Manager'', 50), (''Cybersecurity Analyst'', 50)]"
  unfolding example_scores by (simp add: sorted_by_score_reverse_def)

lemma example_output:
  "generate_career_recommendations remdups example_answers =
     map make_recommendation
       [(''Software Engineer'', 75), (''Software Developer'', 70), (''Data Scientist'', 70),
        (''IT Manager'', 50), (''Cybersecurity Analyst'', 50)]"
  by (simp only: generate_career_recommendations_def Let_def example_sorted)

text \<open>
  C1. Whatever the answers, and whatever the order in which the set of candidates is
  visited, every recommendation returned has a match percentage between 0 and 95, at
  most five recommendations are returned, and they are in non-increasing order of
  match percentage.
\<close>

theorem scorer_range_length_sorted:
  "(\<forall>r \<in> set (generate_career_recommendations set_iter a).
       0 \<le> match_percentage r \<and> match_percentage r \<le> 95) \<and>
   length (generate_career_recommendations set_iter a) \<le> 5 \<and>
   sorted_wrt (\<lambda>x y. y \<le> x) (map match_percentage (generate_career_recommendations set_iter a))"
proof (intro conjI ballI)
  fix r assume r: "r \<in> set (generate_career_recommendations set_iter a)"
  show "0 \<le> match_percentage r"
    using recommendation_percentage[OF r] career_score_ge[of a "career r"] by simp
  show "match_percentage r \<le> 95"
    using recommendation_percentage[OF r] by simp
next
  show "length (generate_career_recommendations set_iter a) \<le> 5"
    by (simp add: generate_career_recommendations_def Let_def)
next
  let ?S = "sorted_by_score_reverse (career_scores a (candidate_order set_iter a))"
  have "sorted_wrt (\<lambda>x y. snd y \<le> snd x) (take 5 ?S)"
    by (rule sorted_wrt_take_prefix) (rule sorted_careers_desc)
  then have "sorted_wrt (\<lambda>x y. min 95 (snd y) \<le> min 95 (snd x)) (take 5 ?S)"
    by (rule sorted_wrt_mono_rel[rotated]) auto
  then show "sorted_wrt (\<lambda>x y. y \<le> x)
               (map match_percentage (generate_career_recommendations set_iter a))"
    by (simp add: generate_career_recommendations_def Let_def sorted_wrt_map make_recommendation_def)
qed

theorem scorer_range_length_sorted_witness:
  "make_recommendation (''Software Engineer'', 75)
     \<in> set (generate_career_recommendations remdups example_answers) \<and>
   0 \<le> match_percentage (make_recommendation (''Software Engineer'', 75)) \<and>
   match_percentage (make_recommendation (''Software Engineer'', 75)) \<le> 95 \<and>
   length (generate_career_recommendations remdups example_answers) \<le> 5 \<and>
   sorted_wrt (\<lambda>x y. y \<le> x)
     (map match_percentage (generate_career_recommendations remdups example_answers))"
proof -
  have "make_recommendation (''Software Engineer'', 75)
          \<in> set (generate_career_recommendations remdups example_answers)"
    unfolding example_output by simp
  then show ?thesis
    using scorer_range_length_sorted[of remdups example_answers] by blast
qed

text \<open>
  C10. Every recommendation returned has a match percentage of at least 50, so all
  lie between 50 and 95: the score starts at 50 and the bonuses only add to it before
  the cap.
\<close>

theorem scorer_floor:
  "\<forall>r \<in> set (generate_career_recommendations set_iter a).
     50 \<le> match_percentage r \<and> match_percentage r \<le> 95"
proof
  fix r assume r: "r \<in> set (generate_career_recommendations set_iter a)"
  show "50 \<le> match_percentage r \<and> match_percentage r \<le> 95"
    using recommendation_percentage[OF r] career_score_ge[of a "career r"] by simp
qed

theorem scorer_floor_witness:
  "make_recommendation (''IT Manager'', 50)
     \<in> set (generate_career_recommendations remdups example_answers) \<and>
   50 \<le> match_percentage (make_recommendation (''IT Manager'', 50)) \<and>
   match_percentage (make_recommendation (''IT Manager'', 50)) \<le> 95"
proof -
  have "make_recommendation (''IT Manager'', 50)
          \<in> set (generate_career_recommendations remdups example_answers)"
    unfolding example_output by simp
  then show ?thesis
    using scorer_floor[of remdups example_answers] by blast
qed

lemma subseq_map_source:
  assumes "subseq ys (map f xs)"
  obtains zs where "subseq zs xs" "ys = map f zs"
proof -
  have "\<exists>zs. subseq zs xs \<and> ys = map f zs"
    using assms
  proof (induction xs arbitrary: ys)
    case Nil
    then show ?case by auto
  next
    case (Cons x xs)
    show ?case
    proof (cases ys)
      case Nil
      then show ?thesis by (intro exI[of _ "[]"]) simp
    next
      case ys: (Cons y ys')
      show ?thesis
      proof (cases "y = f x")
        case True
        with ys Cons.prems have "subseq ys' (map f xs)" by simp
        from Cons.IH[OF this] obtain zs where "subseq zs xs" "ys' = map f zs" by blast
        then show ?thesis using True ys by (intro exI[of _ "x # zs"]) simp
      next
        case False
        with ys Cons.prems have "subseq ys (map f xs)" by simp
        from Cons.IH[OF this] obtain zs where "subseq zs xs" "ys = map f zs" by blast
        then show ?thesis by (intro exI[of _ zs]) auto
      qed
    qed
  qed
  then show thesis using that by (elim exE conjE)
qed

lemma pair_source:
  assumes "[r1, r2] = map f zs"
  obtains x y where "zs = [x, y]" "r1 = f x" "r2 = f y"
  using assms by (auto simp: Cons_eq_map_conv)

lemma subseq_members: "subseq xs ys \<Longrightarrow> set xs \<subseteq> set ys"
  by (induction rule: list_emb.induct) auto

text \<open>A stable sort keeps two elements with equal keys in their original order.\<close>

lemma stable_order:
  assumes "subseq [x, y] (sort_key f items)" and "f x = f y"
  shows "subseq [x, y] items"
proof -
  have "subseq (filter (\<lambda>z. f z = f x) [x, y]) (filter (\<lambda>z. f z = f x) (sort_key f items))"
    using assms(1) by (rule subseq_filter)
  then have "subseq [x, y] (filter (\<lambda>z. f z = f x) items)"
    using assms(2) by (simp add: sort_key_stable)
  then show ?thesis
    using subseq_filter_left[of "\<lambda>z. f z = f x" items] subseq_order.trans by blast
qed

text \<open>
  C4, amended. When a recommendation \<open>r1\<close> stands before a recommendation \<open>r2\<close> in the
  output and both have the same match percentage, the career of \<open>r1\<close> was inserted into
  the mapping \<open>career_scores\<close> before the career of \<open>r2\<close>: the stable sort keeps tied
  careers in the insertion order of that mapping, which is the order in which the
  candidates were visited.
\<close>

theorem scorer_tie_break:
  assumes "subseq [r1, r2] (generate_career_recommendations set_iter a)"
    and "match_percentage r1 = match_percentage r2"
  shows "subseq [career r1, career r2]
           (map fst (career_scores a (candidate_order set_iter a)))"
proof -
  let ?items = "career_scores a (candidate_order set_iter a)"
  let ?S = "sorted_by_score_reverse ?items"
  from assms(1) have "subseq [r1, r2] (map make_recommendation (take 5 ?S))"
    unfolding generate_career_recommendations_def Let_def .
  then obtain zs where zs: "subseq zs (take 5 ?S)" "[r1, r2] = map make_recommendation zs"
    by (rule subseq_map_source)
  from zs(2) obtain x y
    where xy: "zs = [x, y]" "r1 = make_recommendation x" "r2 = make_recommendation y"
    by (rule pair_source)
  have "subseq (take 5 ?S) (take 5 ?S @ drop 5 ?S)"
    by (rule subseq_rev_drop_many) simp
  then have take_S: "subseq (take 5 ?S) ?S" by simp
  from zs(1) have "subseq [x, y] (take 5 ?S)" by (simp only: xy(1))
  from subseq_order.trans[OF this take_S] have in_S: "subseq [x, y] ?S" .
  have "x \<in> set ?S" "y \<in> set ?S"
    using subseq_members[OF in_S] by simp_all
  then have mem: "x \<in> set ?items" "y \<in> set ?items"
    by (simp_all add: sorted_by_score_reverse_def)
  have "snd x = career_score a (fst x)" "snd y = career_score a (fst y)"
    using mem by (simp_all add: career_scores_snd)
  then have "min 95 (snd x) = snd x" "min 95 (snd y) = snd y"
    using career_score_le[of a "fst x"] career_score_le[of a "fst y"] by simp_all
  with assms(2) xy have "snd x = snd y" by (simp add: make_recommendation_def)
  then have "subseq [x, y] ?items"
    using in_S stable_order[of x y "\<lambda>x. - snd x" ?items]
    by (simp add: sorted_by_score_reverse_def)
  then have "subseq (map fst [x, y]) (map fst ?items)" by (rule subseq_map)
  then show ?thesis using xy by (simp add: make_recommendation_def)
qed

theorem scorer_tie_break_witness:
  "subseq [make_recommendation (''Software Developer'', 70),
           make_recommendation (''Data Scientist'', 70)]
      (generate_career_recommendations remdups example_answers) \<and>
   match_percentage (make_recommendation (''Software Developer'', 70)) =
     match_percentage (make_recommendation (''Data Scientist'', 70)) \<and>
   subseq [''Software Developer'', ''Data Scientist'']
      (map fst (career_scores example_answers (candidate_order remdups example_answers)))"
proof -
  have "subseq [(''Software Developer'', 70::int), (''Data Scientist'', 70)]
          [(''Software Engineer'', 75), (''Software Developer'', 70), (''Data Scientist'', 70),
           (''IT Manager'', 50), (''Cybersecurity Analyst'', 50)]"
    by simp
  then have h1: "subseq [make_recommendation (''Software Developer'', 70),
                         make_recommendation (''Data Scientist'', 70)]
      (generate_career_recommendations remdups example_answers)"
    unfolding example_output using subseq_map[of _ _ make_recommendation] by fastforce
  have h2: "match_percentage (make_recommendation (''Software Developer'', 70)) =
     match_percentage (make_recommendation (''Data Scientist'', 70))"
    by (simp add: make_recommendation_def)
  from scorer_tie_break[OF h1 h2] show ?thesis
    using h1 h2 by (simp add: make_recommendation_def)
qed

lemma tie_potential:
  "potential_careers tie_answers =
     [''Software Developer'', ''IT Manager'', ''Data Scientist'', ''Cybersecurity Analyst'',
      ''Registered Nurse'', ''Healthcare Administrator'', ''Medical Technician'',
      ''Physical Therapist'']"
  by (simp add: potential_careers_def careers_for_def tie_answers_def get_or_def
      interest_career_map_def)

lemma tie_scores: "career_score tie_answers c = 50"
  by (simp add: career_score_def Let_def tie_answers_def get_or_def)

lemma tie_output_forward:
  "map career (generate_career_recommendations remdups tie_answers) =
     [''Software Developer'', ''IT Manager'', ''Data Scientist'', ''Cybersecurity Analyst'',
      ''Registered Nurse'']"
  by (simp add: generate_career_recommendations_def Let_def candidate_order_def tie_potential
      career_scores_def tie_scores sorted_by_score_reverse_def make_recommendation_def)

lemma tie_output_backward:
  "map career (generate_career_recommendations (rev \<circ> remdups) tie_answers) =
     [''Physical Therapist'', ''Medical Technician'', ''Healthcare Administrator'',
      ''Registered Nurse'', ''Cybersecurity Analyst'']"
  by (simp add: generate_career_recommendations_def Let_def candidate_order_def tie_potential
      career_scores_def tie_scores sorted_by_score_reverse_def make_recommendation_def)

text \<open>
  C4 as stated fails: the answers do not determine the order of tied careers. Two
  orders in which the same set of eight tied candidates can be visited, both without
  repetition, give different outputs, which do not even hold the same careers.
\<close>

theorem scorer_tie_order_counterexample:
  "\<not> (generate_career_recommendations remdups tie_answers =
        generate_career_recommendations (rev \<circ> remdups) tie_answers) \<and>
   set ((rev \<circ> remdups) (potential_careers tie_answers)) =
     set (remdups (potential_careers tie_answers)) \<and>
   distinct (remdups (potential_careers tie_answers)) \<and>
   distinct ((rev \<circ> remdups) (potential_careers tie_answers)) \<and>
   map career (generate_career_recommendations remdups tie_answers) =
     [''Software Developer'', ''IT Manager'', ''Data Scientist'', ''Cybersecurity Analyst'',
      ''Registered Nurse''] \<and>
   map career (generate_career_recommendations (rev \<circ> remdups) tie_answers) =
     [''Physical Therapist'', ''Medical Technician'', ''Healthcare Administrator'',
      ''Registered Nurse'', ''Cybersecurity Analyst'']"
proof -
  have "map career (generate_career_recommendations remdups tie_answers) \<noteq>
        map career (generate_career_recommendations (rev \<circ> remdups) tie_answers)"
    unfolding tie_output_forward tie_output_backward by simp
  then have "\<not> (generate_career_recommendations remdups tie_answers =
        generate_career_recommendations (rev \<circ> remdups) tie_answers)"
    by auto
  then show ?thesis
    using tie_output_forward tie_output_backward by simp
qed

lemma default_scores:
  "career_score a ''Project Manager'' =
     (if get_or (team_size a) ''Medium Team (6-15)'' = ''Large Team (16-50)'' then 65 else 50)"
  "career_score a ''Operations Manager'' =
     (if get_or (team_size a) ''Medium Team (6-15)'' = ''Large Team (16-50)'' then 65 else 50)"
  "career_score a ''Business Analyst'' = 50"
  "career_score a ''Marketing Specialist'' = 50"
  by (simp_all add: career_score_def Let_def)

lemma default_career_scores:
  "career_scores a default_careers =
     [(''Project Manager'', career_score a ''Project Manager''),
      (''Business Analyst'', career_score a ''Business Analyst''),
      (''Marketing Specialist'', career_score a ''Marketing Specialist''),
      (''Operations Manager'', career_score a ''Operations Manager'')]"
  by (simp add: career_scores_def default_careers_def)

text \<open>
  C5. When no interest and no skill is selected, the careers returned are exactly the
  four default careers (in the order given below, which depends only on the team-size
  answer), and each has a match percentage of at least 50.
\<close>

theorem scorer_default_set:
  assumes "get_or (interests a) [] = []" and "get_or (technical_skills a) [] = []"
  shows "map career (generate_career_recommendations set_iter a) =
           (if get_or (team_size a) ''Medium Team (6-15)'' = ''Large Team (16-50)''
            then [''Project Manager'', ''Operations Manager'', ''Business Analyst'', ''Marketing Specialist'']
            else [''Project Manager'', ''Business Analyst'', ''Marketing Specialist'', ''Operations Manager''])
         \<and> set (map career (generate_career_recommendations set_iter a)) = set default_careers
         \<and> length (generate_career_recommendations set_iter a) = 4
         \<and> (\<forall>r \<in> set (generate_career_recommendations set_iter a). 50 \<le> match_percentage r)"
proof -
  have cands: "candidate_order set_iter a = default_careers"
    using assms by (simp add: candidate_order_def potential_careers_def careers_for_def)
  have out: "map career (generate_career_recommendations set_iter a) =
           (if get_or (team_size a) ''Medium Team (6-15)'' = ''Large Team (16-50)''
            then [''Project Manager'', ''Operations Manager'', ''Business Analyst'', ''Marketing Specialist'']
            else [''Project Manager'', ''Business Analyst'', ''Marketing Specialist'', ''Operations Manager''])"
    by (simp add: generate_career_recommendations_def Let_def cands default_career_scores
        default_scores sorted_by_score_reverse_def make_recommendation_def)
  have "length (map career (generate_career_recommendations set_iter a)) = 4"
    unfolding out by simp
  then have len: "length (generate_career_recommendations set_iter a) = 4" by simp
  have members: "set (map career (generate_career_recommendations set_iter a)) = set default_careers"
    unfolding out by (auto simp: default_careers_def)
  have floor: "\<forall>r \<in> set (generate_career_recommendations set_iter a). 50 \<le> match_percentage r"
  proof
    fix r assume r: "r \<in> set (generate_career_recommendations set_iter a)"
    show "50 \<le> match_percentage r"
      using recommendation_percentage[OF r] career_score_ge[of a "career r"] by simp
  qed
  from out members len floor show ?thesis by (intro conjI)
qed

theorem scorer_default_set_witness:
  "get_or (interests empty_answers) [] = [] \<and> get_or (technical_skills empty_answers) [] = [] \<and>
   map career (generate_career_recommendations remdups empty_answers) =
     [''Project Manager'', ''Operations Manager'', ''Business Analyst'', ''Marketing Specialist''] \<and>
   hd (generate_career_recommendations remdups empty_answers)
     \<in> set (generate_career_recommendations remdups empty_answers) \<and>
   50 \<le> match_percentage (hd (generate_career_recommendations remdups empty_answers))"
proof -
  have h1: "get_or (interests empty_answers) [] = []"
    and h2: "get_or (technical_skills empty_answers) [] = []"
    by (simp_all add: empty_answers_def get_or_def)
  have ts: "get_or (team_size empty_answers) ''Medium Team (6-15)'' = ''Large Team (16-50)''"
    by (simp add: empty_answers_def get_or_def)
  note at_empty = scorer_default_set[OF h1 h2, of remdups]
  from at_empty have "length (generate_career_recommendations remdups empty_answers) = 4"
    by blast
  then have "generate_career_recommendations remdups empty_answers \<noteq> []"
    by auto
  then have mem: "hd (generate_career_recommendations remdups empty_answers)
                   \<in> set (generate_career_recommendations remdups empty_answers)"
    by simp
  from at_empty have careers: "map career (generate_career_recommendations remdups empty_answers) =
     [''Project Manager'', ''Operations Manager'', ''Business Analyst'', ''Marketing Specialist'']"
    by (simp add: ts)
  from at_empty mem have "50 \<le> match_percentage (hd (generate_career_recommendations remdups empty_answers))"
    by blast
  with h1 h2 careers mem show ?thesis by (intro conjI)
qed

section \<open>Properties of the keyword classifier and of the conversation context\<close>

lemma str_contains_sublist: "str_contains sub s = sublist sub s"
  by (induction s) (simp_all add: sublist_Cons_right)

lemma example_lib_simps:
  "str_lower example_lib = ascii_lower"
  "str_strip example_lib = ascii_strip"
  "bytes_decode example_lib line = Inr line"
  by (simp_all add: example_lib_def)

text \<open>
  C6. Whatever \<open>str.lower()\<close> returns for the prompt, the classifier returns true
  exactly when that lower-cased text contains one of the career keywords as a
  substring; in particular it returns false when none occurs. It is a total function of
  the prompt and of nothing else.
\<close>

theorem classifier_substring:
  "is_career_related_question L prompt \<longleftrightarrow>
     (\<exists>keyword \<in> set career_keywords. \<exists>pre suf. str_lower L prompt = pre @ keyword @ suf)"
  by (simp add: is_career_related_question_def list_ex_iff str_contains_sublist sublist_def)

theorem classifier_substring_witness:
  "str_lower example_lib ''What JOB suits me?'' = ''what '' @ ''job'' @ '' suits me?'' \<and>
   ''job'' \<in> set career_keywords \<and>
   is_career_related_question example_lib ''What JOB suits me?''"
proof -
  have a: "str_lower example_lib ''What JOB suits me?'' = ''what '' @ ''job'' @ '' suits me?''"
    by (simp add: example_lib_simps ascii_lower_def ascii_lower_char_def)
  have b: "''job'' \<in> set career_keywords"
    by (simp add: career_keywords_def)
  from a b have "is_career_related_question example_lib ''What JOB suits me?''"
    unfolding classifier_substring by blast
  with a b show ?thesis by (intro conjI)
qed

lemma classifier_rejects_example: "\<not> is_career_related_question example_lib ''What is love?''"
  by (simp add: is_career_related_question_def example_lib_simps ascii_lower_def
      ascii_lower_char_def career_keywords_def)

text \<open>
  A prompt whose letters lie outside ASCII: \<open>WOR\<close> followed by the Kelvin sign (U+212A,
  the bytes E2 84 AA), which \<open>str.lower()\<close> turns into \<open>work\<close>.
\<close>

lemma classifier_kelvin_sign:
  assumes "str_lower L (''WOR'' @ [CHR 0xE2, CHR 0x84, CHR 0xAA]) = ''work''"
  shows "is_career_related_question L (''WOR'' @ [CHR 0xE2, CHR 0x84, CHR 0xAA])"
  using assms by (simp add: is_career_related_question_def career_keywords_def)

lemma fold_turns:
  "fold (\<lambda>msg full_prompt.
           if role msg = ''user'' then full_prompt @ ''User: '' @ content msg @ ''\<newline>''
           else if role msg = ''assistant''
           then full_prompt @ ''Career Mentor: '' @ content msg @ ''\<newline>''
           else full_prompt) messages acc =
   acc @ concat (map (\<lambda>msg. if role msg = ''user'' \<or> role msg = ''assistant''
                              then turn_line msg else []) messages)"
  by (induction messages arbitrary: acc) (auto simp: turn_line_def)

lemma known_roles_lines:
  assumes "\<forall>m \<in> set messages. role m = ''user'' \<or> role m = ''assistant''"
  shows "map (\<lambda>msg. if role msg = ''user'' \<or> role msg = ''assistant'' then turn_line msg else [])
           messages = map turn_line messages"
  using assms by (intro map_cong) auto

lemma build_full_prompt_lines:
  assumes "\<forall>m \<in> set messages. role m = ''user'' \<or> role m = ''assistant''"
  shows "build_full_prompt preamble messages prompt =
           preamble @ ''\<newline>\<newline>'' @ concat (map turn_line messages) @
           ''User: '' @ prompt @ ''\<newline>'' @ ''Career Mentor:''"
  unfolding build_full_prompt_def Let_def fold_turns known_roles_lines[OF assms] by simp

text \<open>
  In \<open>display_chat_interface\<close> the history handed to these lines already ends with the
  new user message, so its line stands in the prompt twice.
\<close>

lemma display_chat_prompt_repeats_user_line:
  assumes "\<forall>m \<in> set messages. role m = ''user'' \<or> role m = ''assistant''"
  shows "display_chat_full_prompt messages prompt =
           chat_system_prompt @ ''\<newline>\<newline>'' @ concat (map turn_line messages) @
           ''User: '' @ prompt @ ''\<newline>'' @ ''User: '' @ prompt @ ''\<newline>'' @ ''Career Mentor:''"
proof -
  have known: "\<forall>m \<in> set (messages @ [\<lparr>role = ''user'', content = prompt\<rparr>]).
          role m = ''user'' \<or> role m = ''assistant''"
    using assms by simp
  have "display_chat_full_prompt messages prompt =
          chat_system_prompt @ ''\<newline>\<newline>'' @
          concat (map turn_line (messages @ [\<lparr>role = ''user'', content = prompt\<rparr>])) @
          ''User: '' @ prompt @ ''\<newline>'' @ ''Career Mentor:''"
    unfolding display_chat_full_prompt_def by (rule build_full_prompt_lines[OF known])
  then show ?thesis by (simp add: turn_line_def)
qed

text \<open>
  C9. For a history whose turns are user or assistant turns, the prompt that
  \<open>get_ollama_response_stream\<close> sends is exactly the system preamble and a blank line,
  one line \<open>User: ...\<close> or \<open>Career Mentor: ...\<close> for each turn of the history, in order
  and in full, then the line of the new user text, then the cue \<open>Career Mentor:\<close>. The
  prompt that \<open>display_chat_interface\<close> sends for the same history and the same new text
  is not of that form: the line of the new user text stands in it twice.
\<close>

theorem context_builder_paths:
  assumes "\<forall>m \<in> set (session_messages env). role m = ''user'' \<or> role m = ''assistant''"
  shows "req_prompt (stream_request env prompt model) =
           system_prompt @ ''\<newline>\<newline>'' @ concat (map turn_line (session_messages env)) @
           ''User: '' @ prompt @ ''\<newline>'' @ ''Career Mentor:'' \<and>
         display_chat_full_prompt (session_messages env) prompt =
           chat_system_prompt @ ''\<newline>\<newline>'' @ concat (map turn_line (session_messages env)) @
           ''User: '' @ prompt @ ''\<newline>'' @ ''User: '' @ prompt @ ''\<newline>'' @ ''Career Mentor:'' \<and>
         display_chat_full_prompt (session_messages env) prompt \<noteq>
           chat_system_prompt @ ''\<newline>\<newline>'' @ concat (map turn_line (session_messages env)) @
           ''User: '' @ prompt @ ''\<newline>'' @ ''Career Mentor:''"
proof (intro conjI)
  show "req_prompt (stream_request env prompt model) =
           system_prompt @ ''\<newline>\<newline>'' @ concat (map turn_line (session_messages env)) @
           ''User: '' @ prompt @ ''\<newline>'' @ ''Career Mentor:''"
    by (simp add: stream_request_def build_full_prompt_lines[OF assms])
next
  show twice: "display_chat_full_prompt (session_messages env) prompt =
           chat_system_prompt @ ''\<newline>\<newline>'' @ concat (map turn_line (session_messages env)) @
           ''User: '' @ prompt @ ''\<newline>'' @ ''User: '' @ prompt @ ''\<newline>'' @ ''Career Mentor:''"
    by (rule display_chat_prompt_repeats_user_line[OF assms])
  have "length (display_chat_full_prompt (session_messages env) prompt) \<noteq>
        length (chat_system_prompt @ ''\<newline>\<newline>'' @ concat (map turn_line (session_messages env)) @
           ''User: '' @ prompt @ ''\<newline>'' @ ''Career Mentor:'')"
    unfolding twice by simp
  then show "display_chat_full_prompt (session_messages env) prompt \<noteq>
           chat_system_prompt @ ''\<newline>\<newline>'' @ concat (map turn_line (session_messages env)) @
           ''User: '' @ prompt @ ''\<newline>'' @ ''Career Mentor:''"
    by metis
qed

theorem context_builder_paths_witness:
  "role (session_messages example_chat_env ! 0) = ''user'' \<and>
   role (session_messages example_chat_env ! 1) = ''assistant'' \<and>
   req_prompt (stream_request example_chat_env ''What job?'' ''m'') =
     system_prompt @
     ''\<newline>\<newline>User: Hi\<newline>Career Mentor: Hello\<newline>User: What job?\<newline>Career Mentor:'' \<and>
   display_chat_full_prompt example_history ''What job?'' =
     chat_system_prompt @
     ''\<newline>\<newline>User: Hi\<newline>Career Mentor: Hello\<newline>User: What job?\<newline>User: What job?\<newline>Career Mentor:''"
proof -
  have h: "\<forall>m \<in> set (session_messages example_chat_env). role m = ''user'' \<or> role m = ''assistant''"
    by (simp add: example_chat_env_def example_history_def)
  have s: "session_messages example_chat_env = example_history"
    by (simp add: example_chat_env_def)
  from context_builder_paths[OF h, of "''What job?''" "''m''"] show ?thesis
    unfolding s by (simp add: example_history_def turn_line_def)
qed

text \<open>The failing input of C9 with an empty history, evaluated.\<close>

lemma display_chat_first_message:
  "display_chat_full_prompt [] ''What job?'' =
     chat_system_prompt @ ''\<newline>\<newline>User: What job?\<newline>User: What job?\<newline>Career Mentor:''"
  by (simp add: display_chat_full_prompt_def build_full_prompt_def)

section \<open>Properties of the streaming relay\<close>

lemma read_loop_end: "read_loop L evs = EndOfStream \<Longrightarrow> stream_chunks L evs = ([], None)"
  by (induction L evs rule: read_loop.induct) (auto split: if_splits sum.splits)

lemma read_loop_raised: "read_loop L evs = Raised e \<Longrightarrow> stream_chunks L evs = ([], Some e)"
  by (induction L evs rule: read_loop.induct) (auto split: if_splits sum.splits)

lemma read_loop_yielded:
  "read_loop L evs = Yielded c rest \<Longrightarrow>
   stream_chunks L evs = (c # fst (stream_chunks L rest), snd (stream_chunks L rest)) \<and>
   length rest < length evs"
proof (induction evs)
  case Nil
  then show ?case by simp
next
  case (Cons ev evs)
  show ?case
  proof (cases ev)
    case (ReadError e)
    with Cons.prems show ?thesis by simp
  next
    case (Line line)
    with Cons.prems have nonempty: "line \<noteq> []" by (auto split: if_splits)
    show ?thesis
    proof (cases "bytes_decode L line")
      case (Inl e)
      show ?thesis
      proof (cases "is_JSONDecodeError e")
        case True
        with Cons.prems Line nonempty Inl have "read_loop L evs = Yielded c rest" by simp
        from Cons.IH[OF this] Line nonempty Inl True show ?thesis by simp
      next
        case False
        with Cons.prems Line nonempty Inl show ?thesis by simp
      qed
    next
      case decoded: (Inr decoded_line)
      show ?thesis
      proof (cases "json_loads L decoded_line")
        case (Inl e)
        show ?thesis
        proof (cases "is_JSONDecodeError e")
          case True
          with Cons.prems Line nonempty decoded Inl have "read_loop L evs = Yielded c rest"
            by simp
          from Cons.IH[OF this] Line nonempty decoded Inl True show ?thesis by simp
        next
          case False
          with Cons.prems Line nonempty decoded Inl show ?thesis by simp
        qed
      next
        case parsed: (Inr data)
        show ?thesis
        proof (cases "json_get data ''response'' (JStr [])")
          case (Inl e)
          show ?thesis
          proof (cases "is_JSONDecodeError e")
            case True
            with Cons.prems Line nonempty decoded parsed Inl
            have "read_loop L evs = Yielded c rest" by simp
            from Cons.IH[OF this] Line nonempty decoded parsed Inl True show ?thesis by simp
          next
            case False
            with Cons.prems Line nonempty decoded parsed Inl show ?thesis by simp
          qed
        next
          case got: (Inr chunk)
          show ?thesis
          proof (cases "truthy chunk")
            case True
            with Cons.prems Line nonempty decoded parsed got show ?thesis
              by (simp split: prod.splits)
          next
            case False
            with Cons.prems Line nonempty decoded parsed got
            have "read_loop L evs = Yielded c rest" by simp
            from Cons.IH[OF this] Line nonempty decoded parsed got False show ?thesis by simp
          qed
        qed
      qed
    qed
  qed
qed

lemma drain_at_failure:
  "pc st = AtFailureYield \<Longrightarrow> gen_drain env prompt model st = ([], st\<lparr>pc := Finished\<rparr>)"
  by (subst gen_drain.simps) (simp add: gen_next_def)

lemma drain_at_status:
  "pc st = AtStatusYield \<Longrightarrow>
   gen_drain env prompt model st = ([], st\<lparr>pc := Finished, conn_closed := True\<rparr>)"
  by (subst gen_drain.simps) (simp add: gen_next_def)

lemma drain_at_refusal:
  "pc st = AtRefusalYield \<Longrightarrow> gen_drain env prompt model st = ([], st\<lparr>pc := Finished\<rparr>)"
  by (subst gen_drain.simps) (simp add: gen_next_def)

lemma drain_after_resume:
  "(case resume_reading (lib env) st evs of
      (None, st') \<Rightarrow> ([], st')
    | (Some chunk, st') \<Rightarrow>
        (case gen_drain env prompt model st' of (chunks, st'') \<Rightarrow> (chunk # chunks, st''))) =
   drained st (stream_chunks (lib env) evs)"
proof (induction "length evs" arbitrary: evs st rule: less_induct)
  case less
  show ?case
  proof (cases "read_loop (lib env) evs")
    case EndOfStream
    then show ?thesis
      by (simp add: resume_reading_def read_loop_end drained_def)
  next
    case (Raised e)
    then show ?thesis
      by (simp add: resume_reading_def read_loop_raised drained_def drain_at_failure)
  next
    case (Yielded c rest)
    let ?st1 = "st\<lparr>pc := AtChunkYield rest\<rparr>"
    from read_loop_yielded[OF Yielded]
    have chunks: "stream_chunks (lib env) evs =
                    (c # fst (stream_chunks (lib env) rest), snd (stream_chunks (lib env) rest))"
      and shorter: "length rest < length evs" by simp_all
    have "gen_drain env prompt model ?st1 =
            (case resume_reading (lib env) ?st1 rest of
               (None, st') \<Rightarrow> ([], st')
             | (Some chunk, st') \<Rightarrow>
                 (case gen_drain env prompt model st' of (chunks, st'') \<Rightarrow> (chunk # chunks, st'')))"
      by (subst gen_drain.simps) (simp add: gen_next_def)
    also have "\<dots> = drained ?st1 (stream_chunks (lib env) rest)"
      by (rule less[OF shorter])
    finally have rest_drained:
      "gen_drain env prompt model ?st1 = drained ?st1 (stream_chunks (lib env) rest)" .
    show ?thesis
      by (cases "stream_chunks (lib env) rest")
        (auto simp: resume_reading_def Yielded rest_drained chunks drained_def split: option.splits)
  qed
qed

text \<open>The whole run of the generator for a prompt that passes the classifier.\<close>

lemma drain_start:
  assumes "is_career_related_question (lib env) prompt"
  shows "gen_drain env prompt model gen_init =
           (case ollama env (stream_request env prompt model) of
              RequestError e \<Rightarrow>
                ([failure_chunk e], \<lparr>pc = Finished, conn_created = True, conn_closed = False\<rparr>)
            | Response status evs \<Rightarrow>
                if status = 200
                then drained \<lparr>pc = NotStarted, conn_created = True, conn_closed = False\<rparr>
                       (stream_chunks (lib env) evs)
                else ([status_chunk status],
                      \<lparr>pc = Finished, conn_created = True, conn_closed = True\<rparr>))"
proof (cases "ollama env (stream_request env prompt model)")
  case (RequestError e)
  with assms show ?thesis
    by (subst gen_drain.simps) (simp add: gen_next_def gen_init_def Let_def drain_at_failure)
next
  case (Response status evs)
  show ?thesis
  proof (cases "status = 200")
    case True
    with assms Response
      drain_after_resume[where env = env and evs = evs and prompt = prompt and model = model
        and st = "\<lparr>pc = NotStarted, conn_created = True, conn_closed = False\<rparr>"]
    show ?thesis
      by (subst gen_drain.simps) (simp add: gen_next_def gen_init_def Let_def)
  next
    case False
    with assms Response show ?thesis
      by (subst gen_drain.simps) (simp add: gen_next_def gen_init_def Let_def drain_at_status)
  qed
qed

lemma drain_off_topic:
  assumes "\<not> is_career_related_question (lib env) prompt"
  shows "gen_drain env prompt model gen_init =
           ([refusal_chunk], \<lparr>pc = Finished, conn_created = False, conn_closed = False\<rparr>)"
  using assms
  by (subst gen_drain.simps) (simp add: gen_next_def gen_init_def drain_at_refusal)

lemma example_env_simps:
  "lib (example_env res) = example_lib"
  "ollama (example_env res) request = res"
  by (simp_all add: example_env_def)

lemma example_prompt_on_topic:
  "is_career_related_question (lib (example_env res)) ''career advice''"
  by (simp add: is_career_related_question_def example_env_simps example_lib_simps
      ascii_lower_def ascii_lower_char_def career_keywords_def)

lemma example_lines:
  "json_loads example_lib line_A = Inr (JObj [(''response'', JStr ''A'')])"
  "json_loads example_lib line_B = Inr (JObj [(''response'', JStr ''B'')])"
  "json_loads example_lib line_done = Inr (JObj [(''response'', JStr []), (''done'', JBool True)])"
  "json_loads example_lib line_bad = Inl (JSONDecodeError ''Expecting value: line 1 column 1 (char 0)'')"
  "line_A \<noteq> []" "line_B \<noteq> []" "line_done \<noteq> []" "line_bad \<noteq> []"
  by (simp_all add: example_lib_def line_A_def line_B_def line_done_def line_bad_def)

text \<open>
  The lines of a well-formed stream give their non-empty fragments as chunks, whatever
  follows them.
\<close>

lemma stream_chunks_record_prefix:
  "\<forall>l \<in> set lines. record_line L l \<Longrightarrow>
   stream_chunks L (map Line lines @ evs) =
     (map JStr (filter (\<lambda>s. s \<noteq> []) (fragments L lines)) @ fst (stream_chunks L evs),
      snd (stream_chunks L evs))"
proof (induction lines)
  case Nil
  then show ?case by (simp add: fragments_def map_filter_simps)
next
  case (Cons l lines)
  then have IH: "stream_chunks L (map Line lines @ evs) =
     (map JStr (filter (\<lambda>s. s \<noteq> []) (List.map_filter (line_fragment L) lines)) @
        fst (stream_chunks L evs),
      snd (stream_chunks L evs))"
    by (simp add: fragments_def)
  from Cons.prems have "record_line L l" by simp
  then show ?case
    by (auto simp: record_line_def line_fragment_def fragments_def map_filter_simps IH
        dict_get_def split: sum.splits json.splits option.splits)
qed

lemma stream_chunks_record_lines:
  "\<forall>l \<in> set lines. record_line L l \<Longrightarrow>
   stream_chunks L (map Line lines) =
     (map JStr (filter (\<lambda>s. s \<noteq> []) (fragments L lines)), None)"
  using stream_chunks_record_prefix[of lines L "[]"] by simp

lemma concat_nonempty: "concat (filter (\<lambda>s. s \<noteq> []) xs) = concat xs"
  by (induction xs) auto

text \<open>\<open>str_nat\<close> writes a number in decimal: its digits denote the number.\<close>

lemma digit_value_digit: "n < 10 \<Longrightarrow> digit_value (''0123456789'' ! n) = n"
proof -
  assume "n < 10"
  then have "n \<in> {0, 1, 2, 3, 4, 5, 6, 7, 8, 9}" by auto
  then show ?thesis
    by (auto simp: digit_value_def upt_rec)
qed

lemma decimal_value_snoc: "decimal_value (s @ [c]) = 10 * decimal_value s + digit_value c"
  by (simp add: decimal_value_def)

lemma decimal_value_str_nat: "decimal_value (str_nat n) = n"
proof (induction n rule: str_nat.induct)
  case (1 n)
  show ?case
  proof (cases "n < 10")
    case True
    then have "str_nat n = [''0123456789'' ! n]" by simp
    with True show ?thesis
      using decimal_value_snoc[of "[]" "''0123456789'' ! n"]
      by (simp add: digit_value_digit decimal_value_def)
  next
    case False
    then have unfold: "str_nat n = str_nat (n div 10) @ [''0123456789'' ! (n mod 10)]"
      by (subst str_nat.simps) simp
    from False "1.IH" have "decimal_value (str_nat (n div 10)) = n div 10" by simp
    then show ?thesis
      unfolding unfold decimal_value_snoc by (simp add: digit_value_digit)
  qed
qed

text \<open>
  C2. When a request is made (the prompt passes the classifier) and the server answers
  with a status other than 200, the chunk sequence is the one chunk whose text names
  the status in decimal; when the request raises, it is the one chunk that carries the
  exception's message (for a refused connection or a time-out, an \<open>OSError\<close>, the
  message of that error); when an exception ends the reading of a 200 response (a time-out
  after some lines, a line that is not UTF-8, an exception of \<open>json.loads\<close> other than
  \<open>JSONDecodeError\<close>), the chunks read so far are followed by that one chunk. In each
  case the sequence then ends: the generator is finished and no exception leaves it.
\<close>

theorem relay_failure_in_band:
  assumes "is_career_related_question (lib env) prompt"
  shows "(\<forall>status evs.
            ollama env (stream_request env prompt model) = Response status evs \<and> status \<noteq> 200 \<longrightarrow>
            gen_drain env prompt model gen_init =
              ([JStr (warning_sign @ '' Error: Received status code '' @ str_nat status @
                      '' from Ollama'')],
               \<lparr>pc = Finished, conn_created = True, conn_closed = True\<rparr>) \<and>
            decimal_value (str_nat status) = status) \<and>
         (\<forall>e. ollama env (stream_request env prompt model) = RequestError e \<longrightarrow>
            gen_drain env prompt model gen_init =
              ([JStr (warning_sign @
                      '' Could not connect to Ollama. Make sure it is running. Error: '' @
                      exn_str e)],
               \<lparr>pc = Finished, conn_created = True, conn_closed = False\<rparr>)) \<and>
         (\<forall>m. ollama env (stream_request env prompt model) = RequestError (OSError m) \<longrightarrow>
            gen_drain env prompt model gen_init =
              ([JStr (warning_sign @
                      '' Could not connect to Ollama. Make sure it is running. Error: '' @ m)],
               \<lparr>pc = Finished, conn_created = True, conn_closed = False\<rparr>)) \<and>
         (\<forall>evs chunks e.
            ollama env (stream_request env prompt model) = Response 200 evs \<and>
            stream_chunks (lib env) evs = (chunks, Some e) \<longrightarrow>
            gen_drain env prompt model gen_init =
              (chunks @
               [JStr (warning_sign @
                      '' Could not connect to Ollama. Make sure it is running. Error: '' @
                      exn_str e)],
               \<lparr>pc = Finished, conn_created = True, conn_closed = False\<rparr>)) \<and>
         (\<forall>lines e rest.
            ollama env (stream_request env prompt model) =
              Response 200 (map Line lines @ ReadError e # rest) \<and>
            (\<forall>l \<in> set lines. record_line (lib env) l) \<longrightarrow>
            gen_drain env prompt model gen_init =
              (map JStr (filter (\<lambda>s. s \<noteq> []) (fragments (lib env) lines)) @
               [JStr (warning_sign @
                      '' Could not connect to Ollama. Make sure it is running. Error: '' @
                      exn_str e)],
               \<lparr>pc = Finished, conn_created = True, conn_closed = False\<rparr>))"
proof (intro conjI allI impI)
  fix status evs
  assume "ollama env (stream_request env prompt model) = Response status evs \<and> status \<noteq> 200"
  then show "gen_drain env prompt model gen_init =
              ([JStr (warning_sign @ '' Error: Received status code '' @ str_nat status @
                      '' from Ollama'')],
               \<lparr>pc = Finished, conn_created = True, conn_closed = True\<rparr>)"
    using drain_start[OF assms, of model] by (simp add: status_chunk_def)
next
  fix status :: nat
  show "decimal_value (str_nat status) = status"
    by (rule decimal_value_str_nat)
next
  fix e
  assume "ollama env (stream_request env prompt model) = RequestError e"
  then show "gen_drain env prompt model gen_init =
              ([JStr (warning_sign @
                      '' Could not connect to Ollama. Make sure it is running. Error: '' @
                      exn_str e)],
               \<lparr>pc = Finished, conn_created = True, conn_closed = False\<rparr>)"
    using drain_start[OF assms, of model] by (simp add: failure_chunk_def)
next
  fix m
  assume "ollama env (stream_request env prompt model) = RequestError (OSError m)"
  then show "gen_drain env prompt model gen_init =
              ([JStr (warning_sign @
                      '' Could not connect to Ollama. Make sure it is running. Error: '' @ m)],
               \<lparr>pc = Finished, conn_created = True, conn_closed = False\<rparr>)"
    using drain_start[OF assms, of model] by (simp add: failure_chunk_def)
next
  fix evs chunks e
  assume "ollama env (stream_request env prompt model) = Response 200 evs \<and>
          stream_chunks (lib env) evs = (chunks, Some e)"
  then show "gen_drain env prompt model gen_init =
              (chunks @
               [JStr (warning_sign @
                      '' Could not connect to Ollama. Make sure it is running. Error: '' @
                      exn_str e)],
               \<lparr>pc = Finished, conn_created = True, conn_closed = False\<rparr>)"
    using drain_start[OF assms, of model] by (simp add: drained_def failure_chunk_def)
next
  fix lines e rest
  assume a: "ollama env (stream_request env prompt model) =
               Response 200 (map Line lines @ ReadError e # rest) \<and>
             (\<forall>l \<in> set lines. record_line (lib env) l)"
  then have "stream_chunks (lib env) (map Line lines @ ReadError e # rest) =
               (map JStr (filter (\<lambda>s. s \<noteq> []) (fragments (lib env) lines)), Some e)"
    using stream_chunks_record_prefix[of lines "lib env" "ReadError e # rest"] by simp
  with a show "gen_drain env prompt model gen_init =
              (map JStr (filter (\<lambda>s. s \<noteq> []) (fragments (lib env) lines)) @
               [JStr (warning_sign @
                      '' Could not connect to Ollama. Make sure it is running. Error: '' @
                      exn_str e)],
               \<lparr>pc = Finished, conn_created = True, conn_closed = False\<rparr>)"
    using drain_start[OF assms, of model] by (simp add: drained_def failure_chunk_def)
qed

theorem relay_failure_in_band_witness:
  "is_career_related_question example_lib ''career advice'' \<and>
   fst (gen_drain (example_env (Response 500 [])) ''career advice'' ''m'' gen_init) =
     [JStr (warning_sign @ '' Error: Received status code 500 from Ollama'')] \<and>
   fst (gen_drain (example_env (RequestError (OSError ''Connection refused'')))
          ''career advice'' ''m'' gen_init) =
     [JStr (warning_sign @
        '' Could not connect to Ollama. Make sure it is running. Error: Connection refused'')] \<and>
   fst (gen_drain (example_env (Response 200 [Line line_A, ReadError (OSError ''timed out'')]))
          ''career advice'' ''m'' gen_init) =
     [JStr ''A'', JStr (warning_sign @
        '' Could not connect to Ollama. Make sure it is running. Error: timed out'')]"
proof -
  have on_topic: "is_career_related_question example_lib ''career advice''"
    using example_prompt_on_topic[of "Response 500 []"] by (simp add: example_env_simps)
  have a: "fst (gen_drain (example_env (Response 500 [])) ''career advice'' ''m'' gen_init) =
             [JStr (warning_sign @ '' Error: Received status code 500 from Ollama'')]"
    using relay_failure_in_band[where env = "example_env (Response 500 [])"
        and prompt = "''career advice''" and model = "''m''", OF example_prompt_on_topic]
    by (simp add: example_env_simps)
  have b: "fst (gen_drain (example_env (RequestError (OSError ''Connection refused'')))
                  ''career advice'' ''m'' gen_init) =
             [JStr (warning_sign @
                '' Could not connect to Ollama. Make sure it is running. Error: Connection refused'')]"
    using relay_failure_in_band[where env = "example_env (RequestError (OSError ''Connection refused''))"
        and prompt = "''career advice''" and model = "''m''", OF example_prompt_on_topic]
    by (simp add: example_env_simps)
  have "stream_chunks example_lib [Line line_A, ReadError (OSError ''timed out'')] =
          ([JStr ''A''], Some (OSError ''timed out''))"
    by (simp add: example_lines example_lib_simps dict_get_def)
  then have c: "fst (gen_drain
                       (example_env (Response 200 [Line line_A, ReadError (OSError ''timed out'')]))
                       ''career advice'' ''m'' gen_init) =
             [JStr ''A'', JStr (warning_sign @
                '' Could not connect to Ollama. Make sure it is running. Error: timed out'')]"
    using relay_failure_in_band[where
        env = "example_env (Response 200 [Line line_A, ReadError (OSError ''timed out'')])"
        and prompt = "''career advice''" and model = "''m''", OF example_prompt_on_topic]
    by (simp add: example_env_simps)
  from on_topic a b c show ?thesis by (intro conjI)
qed

text \<open>
  The connection: \<open>conn.close()\<close> is executed when the stream is read to its end and
  after the status chunk, and on no other path.
\<close>

lemma relay_closes_on_normal_end:
  assumes "is_career_related_question (lib env) prompt"
    and "ollama env (stream_request env prompt model) = Response status evs"
    and "status \<noteq> 200 \<or> snd (stream_chunks (lib env) evs) = None"
  shows "conn_closed (snd (gen_drain env prompt model gen_init))"
  using drain_start[OF assms(1), of model] assms(2,3)
  by (cases "stream_chunks (lib env) evs") (auto simp: drained_def)

lemma relay_open_after_exception:
  assumes "is_career_related_question (lib env) prompt"
    and "ollama env (stream_request env prompt model) = Response 200 evs"
    and "stream_chunks (lib env) evs = (chunks, Some e)"
  shows "conn_created (snd (gen_drain env prompt model gen_init)) \<and>
         \<not> conn_closed (snd (gen_drain env prompt model gen_init))"
  using drain_start[OF assms(1), of model] assms(2,3) by (simp add: drained_def)

lemma yield_leaves_connection:
  "gen_next env prompt model st = (Some chunk, st') \<Longrightarrow> conn_closed st' = conn_closed st"
  by (cases "pc st")
    (auto simp: gen_next_def resume_reading_def Let_def
          split: if_splits http_result.splits loop_result.splits)

lemma close_leaves_connection: "conn_closed (gen_close st) = conn_closed st"
  by (simp add: gen_close_def)

text \<open>
  C3, at two inputs: a time-out while the stream is read, and a consumer that takes one
  chunk and closes the generator. In both the generator ends with the connection
  created and \<open>conn.close()\<close> not executed.
\<close>

theorem relay_connection_left_open:
  "gen_drain (example_env (Response 200 [Line line_A, ReadError (OSError ''timed out'')]))
     ''career advice'' ''m'' gen_init =
     ([JStr ''A'', failure_chunk (OSError ''timed out'')],
      \<lparr>pc = Finished, conn_created = True, conn_closed = False\<rparr>) \<and>
   gen_take (Suc 0) (example_env (Response 200 [Line line_A, Line line_B]))
     ''career advice'' ''m'' gen_init =
     ([JStr ''A''], \<lparr>pc = Finished, conn_created = True, conn_closed = False\<rparr>)"
proof (intro conjI)
  have "stream_chunks example_lib [Line line_A, ReadError (OSError ''timed out'')] =
          ([JStr ''A''], Some (OSError ''timed out''))"
    by (simp add: example_lines example_lib_simps dict_get_def)
  then show "gen_drain (example_env (Response 200 [Line line_A, ReadError (OSError ''timed out'')]))
     ''career advice'' ''m'' gen_init =
     ([JStr ''A'', failure_chunk (OSError ''timed out'')],
      \<lparr>pc = Finished, conn_created = True, conn_closed = False\<rparr>)"
    by (simp add: drain_start[OF example_prompt_on_topic] example_env_simps drained_def)
next
  have on_topic: "is_career_related_question example_lib ''career advice''"
    using example_prompt_on_topic[of "Response 500 []"] by (simp add: example_env_simps)
  show "gen_take (Suc 0) (example_env (Response 200 [Line line_A, Line line_B]))
     ''career advice'' ''m'' gen_init =
     ([JStr ''A''], \<lparr>pc = Finished, conn_created = True, conn_closed = False\<rparr>)"
    by (simp add: gen_next_def gen_init_def on_topic example_env_simps Let_def
        resume_reading_def example_lines example_lib_simps dict_get_def gen_close_def)
qed

theorem relay_connection_left_open_witness:
  "\<not> conn_closed (snd (gen_drain
        (example_env (Response 200 [Line line_A, ReadError (OSError ''timed out'')]))
        ''career advice'' ''m'' gen_init)) \<and>
   \<not> conn_closed (snd (gen_take (Suc 0) (example_env (Response 200 [Line line_A, Line line_B]))
        ''career advice'' ''m'' gen_init))"
  using relay_connection_left_open by simp

text \<open>
  C7, amended. For a 200 response whose lines are valid UTF-8 and are each either a
  text on which \<open>json.loads\<close> raises \<open>JSONDecodeError\<close> or a record whose \<open>response\<close>, when
  present, is a text: the chunks are the non-empty \<open>response\<close> texts, one chunk per
  line, in the order of arrival; lines that are not JSON and records without text are
  passed over; the stream is read to its end; and the chunks concatenate to the
  concatenation of all the fragments.
\<close>

theorem relay_stream_fragments:
  assumes "is_career_related_question (lib env) prompt"
    and "ollama env (stream_request env prompt model) = Response 200 (map Line lines)"
    and "\<forall>l \<in> set lines. record_line (lib env) l"
  shows "gen_drain env prompt model gen_init =
           (map JStr (filter (\<lambda>s. s \<noteq> []) (fragments (lib env) lines)),
            \<lparr>pc = Finished, conn_created = True, conn_closed = True\<rparr>) \<and>
         concat (filter (\<lambda>s. s \<noteq> []) (fragments (lib env) lines)) =
           concat (fragments (lib env) lines)"
  using drain_start[OF assms(1), of model] assms(2) stream_chunks_record_lines[OF assms(3)]
  by (simp add: drained_def concat_nonempty)

theorem relay_stream_fragments_witness:
  "is_career_related_question example_lib ''career advice'' \<and>
   record_line example_lib line_A \<and> record_line example_lib line_B \<and>
   record_line example_lib line_bad \<and>
   gen_drain (example_env (Response 200 (map Line [line_A, line_B])))
     ''career advice'' ''m'' gen_init =
     ([JStr ''A'', JStr ''B''], \<lparr>pc = Finished, conn_created = True, conn_closed = True\<rparr>) \<and>
   gen_drain (example_env (Response 200 (map Line [line_A, line_bad, line_B])))
     ''career advice'' ''m'' gen_init =
     ([JStr ''A'', JStr ''B''], \<lparr>pc = Finished, conn_created = True, conn_closed = True\<rparr>) \<and>
   concat [''A'', ''B''] = ''AB''"
proof -
  have on_topic: "is_career_related_question example_lib ''career advice''"
    using example_prompt_on_topic[of "Response 500 []"] by (simp add: example_env_simps)
  have rl: "record_line example_lib line_A" "record_line example_lib line_B"
    "record_line example_lib line_bad"
    by (simp_all add: record_line_def example_lines example_lib_simps)
  then have all: "\<forall>l \<in> set [line_A, line_B].
                    record_line (lib (example_env (Response 200 (map Line [line_A, line_B])))) l"
    by (simp add: example_env_simps)
  have req: "ollama (example_env (Response 200 (map Line [line_A, line_B])))
               (stream_request (example_env (Response 200 (map Line [line_A, line_B])))
                  ''career advice'' ''m'') = Response 200 (map Line [line_A, line_B])"
    by (simp only: example_env_simps)
  have fr: "fragments example_lib [line_A, line_B] = [''A'', ''B'']"
    by (simp add: fragments_def map_filter_simps line_fragment_def example_lines example_lib_simps)
  from relay_stream_fragments[OF example_prompt_on_topic req all]
  have a: "gen_drain (example_env (Response 200 (map Line [line_A, line_B])))
          ''career advice'' ''m'' gen_init =
        ([JStr ''A'', JStr ''B''], \<lparr>pc = Finished, conn_created = True, conn_closed = True\<rparr>)"
    by (simp add: example_env_simps fr)
  from rl have all': "\<forall>l \<in> set [line_A, line_bad, line_B].
      record_line (lib (example_env (Response 200 (map Line [line_A, line_bad, line_B])))) l"
    by (simp add: example_env_simps)
  have req': "ollama (example_env (Response 200 (map Line [line_A, line_bad, line_B])))
               (stream_request (example_env (Response 200 (map Line [line_A, line_bad, line_B])))
                  ''career advice'' ''m'') = Response 200 (map Line [line_A, line_bad, line_B])"
    by (simp only: example_env_simps)
  have fr': "fragments example_lib [line_A, line_bad, line_B] = [''A'', ''B'']"
    by (simp add: fragments_def map_filter_simps line_fragment_def example_lines example_lib_simps)
  from relay_stream_fragments[OF example_prompt_on_topic req' all']
  have b: "gen_drain (example_env (Response 200 (map Line [line_A, line_bad, line_B])))
          ''career advice'' ''m'' gen_init =
        ([JStr ''A'', JStr ''B''], \<lparr>pc = Finished, conn_created = True, conn_closed = True\<rparr>)"
    by (simp add: example_env_simps fr')
  from on_topic rl a b show ?thesis by simp
qed

text \<open>
  C7 as stated fails on the last line of a real stream, a record whose \<open>response\<close> is
  the empty text: it parses as a record with a \<open>response\<close> text, and no chunk is
  emitted for it.
\<close>

theorem relay_empty_fragment_counterexample:
  "\<not> (fst (gen_drain (example_env (Response 200 (map Line [line_A, line_done])))
             ''career advice'' ''m'' gen_init) =
       map JStr (fragments example_lib [line_A, line_done]))"
proof -
  have "stream_chunks example_lib (map Line [line_A, line_done]) = ([JStr ''A''], None)"
    by (simp add: example_lines example_lib_simps dict_get_def)
  then have "fst (gen_drain (example_env (Response 200 (map Line [line_A, line_done])))
             ''career advice'' ''m'' gen_init) = [JStr ''A'']"
    by (simp add: drain_start[OF example_prompt_on_topic] example_env_simps drained_def)
  moreover have "fragments example_lib [line_A, line_done] = [''A'', []]"
    by (simp add: fragments_def map_filter_simps line_fragment_def example_lines example_lib_simps)
  ultimately show ?thesis by simp
qed

text \<open>
  An exception of \<open>json.loads\<close> that is not a \<open>JSONDecodeError\<close> is not skipped: it ends
  the stream with the failure chunk.
\<close>

lemma relay_other_parse_exception:
  assumes "is_career_related_question (lib env) prompt"
    and "ollama env (stream_request env prompt model) = Response 200 (Line line # evs)"
    and "line \<noteq> []" and "bytes_decode (lib env) line = Inr decoded"
    and "json_loads (lib env) decoded = Inl e" and "\<not> is_JSONDecodeError e"
  shows "gen_drain env prompt model gen_init =
           ([failure_chunk e], \<lparr>pc = Finished, conn_created = True, conn_closed = False\<rparr>)"
  using drain_start[OF assms(1), of model] assms(2-) by (simp add: drained_def)

section \<open>Properties of the resume analysis extractor\<close>

text \<open>\<open>until_sub\<close> finds the first occurrence: it returns the text before it.\<close>

lemma until_sub_none: "until_sub sub s = None \<longleftrightarrow> \<not> sublist sub s"
  by (induction s) (auto simp: sublist_Cons_right)

lemma until_sub_first_at:
  assumes "sub \<noteq> []"
  shows "until_sub sub s = Some g \<longleftrightarrow> first_at sub s g"
proof
  assume "until_sub sub s = Some g"
  then show "first_at sub s g"
  proof (induction s arbitrary: g)
    case Nil
    with assms show ?case by simp
  next
    case (Cons c cs)
    show ?case
    proof (cases "prefix sub (c # cs)")
      case True
      with Cons.prems have "g = []" by simp
      with True show ?thesis by (auto simp: first_at_def prefix_def)
    next
      case False
      with Cons.prems obtain g' where g: "g = c # g'" and rec: "until_sub sub cs = Some g'"
        by auto
      from Cons.IH[OF rec] have first: "first_at sub cs g'" .
      then obtain rest where cs: "cs = g' @ sub @ rest"
        by (auto simp: first_at_def)
      have "length g \<le> length pre'" if occ: "c # cs = pre' @ sub @ rest'" for pre' rest'
      proof (cases pre')
        case Nil
        with occ have "prefix sub (c # cs)" by (simp add: prefix_def)
        with False show ?thesis by simp
      next
        case (Cons d pre'')
        with occ have "cs = pre'' @ sub @ rest'" by simp
        with first have "length g' \<le> length pre''" by (auto simp: first_at_def)
        with g Cons show ?thesis by simp
      qed
      with g cs show ?thesis by (auto simp: first_at_def)
    qed
  qed
next
  assume "first_at sub s g"
  then show "until_sub sub s = Some g"
  proof (induction g arbitrary: s)
    case Nil
    then have here: "prefix sub s" by (auto simp: first_at_def)
    with assms have "s \<noteq> []" by auto
    with here show ?case by (cases s) simp_all
  next
    case (Cons c g')
    then obtain rest where s: "s = c # g' @ sub @ rest" by (auto simp: first_at_def)
    from Cons.prems have least: "length (c # g') \<le> length pre'" if "s = pre' @ sub @ rest'"
      for pre' rest'
      using that by (auto simp: first_at_def)
    have not_here: "\<not> prefix sub s"
    proof
      assume "prefix sub s"
      then obtain rest' where "s = [] @ sub @ rest'" by (auto simp: prefix_def)
      from least[OF this] show False by simp
    qed
    have "first_at sub (g' @ sub @ rest) g'"
      unfolding first_at_def
    proof (intro conjI allI impI)
      show "\<exists>r. g' @ sub @ rest = g' @ sub @ r" by blast
    next
      fix pre' rest'
      assume "g' @ sub @ rest = pre' @ sub @ rest'"
      with s have "s = (c # pre') @ sub @ rest'" by simp
      from least[OF this] show "length g' \<le> length pre'" by simp
    qed
    from Cons.IH[OF this] not_here s show ?case by simp
  qed
qed

lemma fence_nonempty: "fence \<noteq> []" "fence @ ''json'' \<noteq> []" "length (fence @ ''json'') = 7"
  by (simp_all add: fence_def)

text \<open>Without a closing fence after position 7 the search fails at every position.\<close>

lemma re_search_no_closing:
  "\<not> sublist fence (drop 7 t) \<Longrightarrow> re_search_json_block t = None"
proof (induction t)
  case Nil
  then show ?case by simp
next
  case (Cons c cs)
  have "sublist (drop 7 cs) (drop 7 (c # cs))"
    using sublist_drop[of 1 "drop 6 cs"] by simp
  with Cons.prems have "\<not> sublist fence (drop 7 cs)"
    using sublist_order.order_trans by blast
  from Cons.IH[OF this] Cons.prems show ?case
    by (simp add: until_sub_none[THEN iffD2])
qed

lemma re_search_absent:
  "\<not> sublist (fence @ ''json'') t \<Longrightarrow> re_search_json_block t = None"
  by (induction t) (auto simp: sublist_Cons_right)

lemma re_search_skip:
  "first_at (fence @ ''json'') (pre @ fence @ ''json'' @ rest) pre \<Longrightarrow>
   re_search_json_block (pre @ fence @ ''json'' @ rest) =
   re_search_json_block (fence @ ''json'' @ rest)"
proof (induction pre)
  case Nil
  then show ?case by simp
next
  case (Cons c pre)
  from Cons.prems
  have least: "length (c # pre) \<le> length pre'"
    if "(c # pre) @ fence @ ''json'' @ rest = pre' @ (fence @ ''json'') @ rest'" for pre' rest'
    using that unfolding first_at_def by blast
  have not_here: "\<not> prefix (fence @ ''json'') (c # pre @ fence @ ''json'' @ rest)"
  proof
    assume "prefix (fence @ ''json'') (c # pre @ fence @ ''json'' @ rest)"
    then obtain rest' where
      "(c # pre) @ fence @ ''json'' @ rest = [] @ (fence @ ''json'') @ rest'"
      by (auto simp: prefix_def)
    from least[OF this] show False by simp
  qed
  have "first_at (fence @ ''json'') (pre @ fence @ ''json'' @ rest) pre"
    unfolding first_at_def
  proof (intro conjI allI impI)
    show "\<exists>r. pre @ fence @ ''json'' @ rest = pre @ (fence @ ''json'') @ r" by simp
  next
    fix pre' rest'
    assume "pre @ fence @ ''json'' @ rest = pre' @ (fence @ ''json'') @ rest'"
    then have "(c # pre) @ fence @ ''json'' @ rest = (c # pre') @ (fence @ ''json'') @ rest'"
      by simp
    from least[OF this] show "length pre \<le> length pre'" by simp
  qed
  from Cons.IH[OF this] not_here show ?case by simp
qed

text \<open>
  The search returns the content of the fenced block of the specification's reading,
  and nothing when the text has no such block.
\<close>

lemma re_search_block:
  assumes "first_at (fence @ ''json'') (pre @ fence @ ''json'' @ g @ fence @ post) pre"
    and "first_at fence (g @ fence @ post) g"
  shows "re_search_json_block (pre @ fence @ ''json'' @ g @ fence @ post) = Some g"
proof -
  from assms(2) have "until_sub fence (g @ fence @ post) = Some g"
    by (simp add: until_sub_first_at[OF fence_nonempty(1)])
  then have "re_search_json_block (fence @ ''json'' @ g @ fence @ post) = Some g"
    by (simp add: fence_def)
  with re_search_skip[OF assms(1)] show ?thesis by simp
qed

lemma re_search_unclosed:
  assumes "first_at (fence @ ''json'') (pre @ fence @ ''json'' @ rest) pre"
    and "\<not> sublist fence rest"
  shows "re_search_json_block (pre @ fence @ ''json'' @ rest) = None"
proof -
  have "drop 7 (fence @ ''json'' @ rest) = rest"
    by (simp add: fence_def)
  with assms(2) have "re_search_json_block (fence @ ''json'' @ rest) = None"
    using re_search_no_closing[of "fence @ ''json'' @ rest"] by simp
  with re_search_skip[OF assms(1)] show ?thesis by simp
qed

lemma re_search_fenced: "fenced_json_block t g \<Longrightarrow> re_search_json_block t = Some g"
  unfolding fenced_json_block_def using re_search_block by blast

lemma re_search_not_fenced:
  assumes "no_fenced_json_block t"
  shows "re_search_json_block t = None"
proof -
  from assms consider "\<not> sublist (fence @ ''json'') t"
    | pre rest where "t = pre @ fence @ ''json'' @ rest"
        and "first_at (fence @ ''json'') t pre" and "\<not> sublist fence rest"
    unfolding no_fenced_json_block_def by blast
  then show ?thesis
  proof cases
    case 1
    then show ?thesis by (rule re_search_absent)
  next
    case 2
    from 2(2) have "first_at (fence @ ''json'') (pre @ fence @ ''json'' @ rest) pre"
      unfolding 2(1) .
    from re_search_unclosed[OF this 2(3)] show ?thesis
      unfolding 2(1) .
  qed
qed

text \<open>Every text has a fenced block or has none.\<close>

lemma fenced_or_not: "(\<exists>g. fenced_json_block t g) \<or> no_fenced_json_block t"
proof (cases "until_sub (fence @ ''json'') t")
  case None
  then show ?thesis by (simp add: until_sub_none no_fenced_json_block_def)
next
  case (Some pre)
  then have first: "first_at (fence @ ''json'') t pre"
    by (simp add: until_sub_first_at[OF fence_nonempty(2)])
  then obtain rest where t: "t = pre @ fence @ ''json'' @ rest"
    by (auto simp: first_at_def)
  show ?thesis
  proof (cases "until_sub fence rest")
    case None
    with first t show ?thesis
      unfolding no_fenced_json_block_def until_sub_none by blast
  next
    case (Some g)
    then have closing: "first_at fence rest g"
      by (simp add: until_sub_first_at[OF fence_nonempty(1)])
    then obtain post where "rest = g @ fence @ post"
      by (auto simp: first_at_def)
    with first t closing have "fenced_json_block t g"
      unfolding fenced_json_block_def by blast
    then show ?thesis by blast
  qed
qed

lemma str_find_absent: "c \<notin> set s \<Longrightarrow> str_find s [c] = - 1"
  by (induction s) auto

lemma str_find_first: "c \<notin> set pre \<Longrightarrow> str_find (pre @ c # rest) [c] = int (length pre)"
  by (induction pre) (auto simp: Let_def)

lemma str_rfind_absent: "c \<notin> set s \<Longrightarrow> str_rfind s [c] = - 1"
  by (induction s) (auto simp: Let_def)

lemma str_rfind_last:
  "c \<notin> set post \<Longrightarrow> str_rfind (front @ c # post) [c] = int (length front)"
  by (induction front) (auto simp: Let_def str_rfind_absent)

lemma str_rfind_lower: "- 1 \<le> str_rfind s sub"
  by (induction s) (auto simp: Let_def)

lemma str_rfind_upper: "str_rfind s [c] < int (length s)"
  by (induction s) (auto simp: Let_def)

lemma str_rfind_before: "c \<notin> set rest \<Longrightarrow> str_rfind (pre @ rest) [c] = str_rfind pre [c]"
  by (induction pre) (auto simp: Let_def str_rfind_absent)

lemma brace_span:
  assumes "re_search_json_block (pre @ ''{'' @ mid @ ''}'' @ post) = None"
    and "CHR ''{'' \<notin> set pre" and "CHR ''}'' \<notin> set post"
  shows "find_json_text L (pre @ ''{'' @ mid @ ''}'' @ post) = Inr (''{'' @ mid @ ''}'')"
proof -
  let ?t = "pre @ ''{'' @ mid @ ''}'' @ post"
  have start: "str_find ?t ''{'' = int (length pre)"
    using str_find_first[OF assms(2), of "mid @ ''}'' @ post"] by simp
  have "str_rfind ((pre @ ''{'' @ mid) @ CHR ''}'' # post) ''}'' = int (length (pre @ ''{'' @ mid))"
    by (rule str_rfind_last[OF assms(3)])
  then have stop: "str_rfind ?t ''}'' = int (length pre) + int (length mid) + 1"
    by simp
  have "py_slice ?t (int (length pre)) (int (length pre) + int (length mid) + 1 + 1) =
          ''{'' @ mid @ ''}''"
    by (simp add: py_slice_def slice_index_def nat_add_distrib)
  then show ?thesis
    using assms(1) start stop by (simp add: find_json_text_def Let_def)
qed

lemma no_brace_no_payload:
  assumes "re_search_json_block t = None" and "CHR ''{'' \<notin> set t"
  shows "find_json_text L t = Inl (ValueError ''No JSON found in response'')"
  using assms by (simp add: find_json_text_def str_find_absent Let_def)

text \<open>An opening brace with no closing brace after it: the slice is empty.\<close>

lemma brace_unclosed:
  assumes "re_search_json_block (pre @ ''{'' @ rest) = None"
    and "CHR ''{'' \<notin> set pre" and "CHR ''}'' \<notin> set rest"
  shows "find_json_text L (pre @ ''{'' @ rest) = Inr []"
proof -
  let ?t = "pre @ ''{'' @ rest"
  have start: "str_find ?t ''{'' = int (length pre)"
    using str_find_first[OF assms(2), of rest] by simp
  from assms(3) have "CHR ''}'' \<notin> set (''{'' @ rest)" by simp
  from str_rfind_before[OF this, of pre]
  have stop: "str_rfind ?t ''}'' = str_rfind pre ''}''" by simp
  have bounds: "- 1 \<le> str_rfind pre ''}''" "str_rfind pre ''}'' < int (length pre)"
    by (rule str_rfind_lower, rule str_rfind_upper)
  then have "py_slice ?t (int (length pre)) (str_rfind pre ''}'' + 1) = []"
    by (simp add: py_slice_def slice_index_def)
  with bounds show ?thesis
    using assms(1) start stop by (simp add: find_json_text_def Let_def)
qed

lemma extract_analysis_payload:
  "find_json_text L t = Inr payload \<Longrightarrow>
   extract_analysis L t =
     (case json_loads L payload of Inl e \<Rightarrow> fallback_analysis | Inr v \<Rightarrow> v)"
  by (simp add: extract_analysis_def inner_try_def inner_handler_def split: sum.splits)

lemma extract_analysis_no_payload:
  "find_json_text L t = Inl (ValueError m) \<Longrightarrow> extract_analysis L t = fallback_analysis"
  by (simp add: extract_analysis_def inner_try_def inner_handler_def)

text \<open>Every text with a \<open>{\<close> has a last \<open>}\<close> after its first \<open>{\<close> or no \<open>}\<close> after it.\<close>

lemma brace_cases:
  "CHR ''{'' \<notin> set t \<or>
   (\<exists>pre mid post. t = pre @ ''{'' @ mid @ ''}'' @ post \<and>
      CHR ''{'' \<notin> set pre \<and> CHR ''}'' \<notin> set post) \<or>
   (\<exists>pre rest. t = pre @ ''{'' @ rest \<and> CHR ''{'' \<notin> set pre \<and> CHR ''}'' \<notin> set rest)"
proof (cases "CHR ''{'' \<in> set t")
  case False
  then show ?thesis by simp
next
  case True
  then obtain pre rest where t: "t = pre @ CHR ''{'' # rest" and pre: "CHR ''{'' \<notin> set pre"
    by (meson split_list_first)
  show ?thesis
  proof (cases "CHR ''}'' \<in> set rest")
    case False
    with t pre have "t = pre @ ''{'' @ rest \<and> CHR ''{'' \<notin> set pre \<and> CHR ''}'' \<notin> set rest"
      by simp
    then show ?thesis by blast
  next
    case True
    then obtain mid post where "rest = mid @ CHR ''}'' # post" and "CHR ''}'' \<notin> set post"
      by (meson split_list_last)
    with t pre have "t = pre @ ''{'' @ mid @ ''}'' @ post \<and>
      CHR ''{'' \<notin> set pre \<and> CHR ''}'' \<notin> set post"
      by simp
    then show ?thesis by blast
  qed
qed

lemma fenced_json_blockI:
  assumes "until_sub (fence @ ''json'') t = Some pre"
    and "t = pre @ fence @ ''json'' @ g @ fence @ post"
    and "until_sub fence (g @ fence @ post) = Some g"
  shows "fenced_json_block t g"
  using assms
  unfolding fenced_json_block_def until_sub_first_at[OF fence_nonempty(2)]
    until_sub_first_at[OF fence_nonempty(1)]
  by blast

lemma no_fenced_unclosedI:
  assumes "until_sub (fence @ ''json'') t = Some pre"
    and "t = pre @ fence @ ''json'' @ rest"
    and "until_sub fence rest = None"
  shows "no_fenced_json_block t"
  using assms
  unfolding no_fenced_json_block_def until_sub_first_at[OF fence_nonempty(2)] until_sub_none
  by blast

lemma example_response_block:
  \<open>fenced_json_block example_response '' {"overall_score": 80} ''\<close>
proof -
  have a: \<open>until_sub (fence @ ''json'') example_response = Some ''prefix ''\<close>
    by (simp add: example_response_def fence_def)
  have b: \<open>until_sub fence ('' {"overall_score": 80} '' @ fence @ '' suffix'') =
             Some '' {"overall_score": 80} ''\<close>
    by (simp add: fence_def)
  have t: \<open>example_response =
             ''prefix '' @ fence @ ''json'' @ '' {"overall_score": 80} '' @ fence @ '' suffix''\<close>
    by (simp add: example_response_def)
  from a b t show ?thesis
    unfolding fenced_json_block_def until_sub_first_at[OF fence_nonempty(2)]
      until_sub_first_at[OF fence_nonempty(1)]
    by blast
qed

lemma example_plain_no_block: "no_fenced_json_block example_plain_response"
proof -
  have "\<not> str_contains (fence @ ''json'') example_plain_response"
    by (simp add: example_plain_response_def fence_def)
  then show ?thesis
    by (simp add: str_contains_sublist no_fenced_json_block_def)
qed

text \<open>
  C8. For every raw text. When the text has a fenced block labelled \<open>json\<close> (its first
  \<open>```json\<close> is followed by a \<open>```\<close>), the payload is the content of that block up to the
  first closing fence, stripped. When it has none (no \<open>```json\<close>, or no \<open>```\<close> after the
  first one), the payload is the span from the first \<open>{\<close> to the last \<open>}\<close>; it is the
  empty text when no \<open>}\<close> follows the first \<open>{\<close>, and there is no payload without a \<open>{\<close>.
  Every text falls under one of these cases. The result is what \<open>json.loads\<close> makes of
  the payload, and the fallback record, whose \<open>overall_score\<close> is 50, when there is no
  payload or \<open>json.loads\<close> raises on it. The example of the specification has the
  payload \<open>{"overall_score": 80}\<close> as soon as \<open>strip\<close> removes the blanks around it, so
  its result has \<open>overall_score\<close> 80 as soon as \<open>json.loads\<close> reads that text as that
  record; a text without a fence and without a brace gives the fallback record.
\<close>

theorem extractor_two_tier:
  \<open>(\<forall>t g. fenced_json_block t g \<longrightarrow>
      extract_analysis L t =
        (case json_loads L (str_strip L g) of Inl e \<Rightarrow> fallback_analysis | Inr v \<Rightarrow> v)) \<and>
   (\<forall>pre mid post.
      no_fenced_json_block (pre @ ''{'' @ mid @ ''}'' @ post) \<and>
      CHR ''{'' \<notin> set pre \<and> CHR ''}'' \<notin> set post \<longrightarrow>
      extract_analysis L (pre @ ''{'' @ mid @ ''}'' @ post) =
        (case json_loads L (''{'' @ mid @ ''}'') of Inl e \<Rightarrow> fallback_analysis | Inr v \<Rightarrow> v)) \<and>
   (\<forall>pre rest.
      no_fenced_json_block (pre @ ''{'' @ rest) \<and>
      CHR ''{'' \<notin> set pre \<and> CHR ''}'' \<notin> set rest \<longrightarrow>
      extract_analysis L (pre @ ''{'' @ rest) =
        (case json_loads L [] of Inl e \<Rightarrow> fallback_analysis | Inr v \<Rightarrow> v)) \<and>
   (\<forall>t. no_fenced_json_block t \<and> CHR ''{'' \<notin> set t \<longrightarrow>
      extract_analysis L t = fallback_analysis) \<and>
   (\<forall>t. ((\<exists>g. fenced_json_block t g) \<or> no_fenced_json_block t) \<and>
        (CHR ''{'' \<notin> set t \<or>
         (\<exists>pre mid post. t = pre @ ''{'' @ mid @ ''}'' @ post \<and>
            CHR ''{'' \<notin> set pre \<and> CHR ''}'' \<notin> set post) \<or>
         (\<exists>pre rest. t = pre @ ''{'' @ rest \<and> CHR ''{'' \<notin> set pre \<and> CHR ''}'' \<notin> set rest))) \<and>
   json_get fallback_analysis ''overall_score'' JNull = Inr (JNum 50) \<and>
   (str_strip L '' {"overall_score": 80} '' = ''{"overall_score": 80}'' \<and>
    json_loads L ''{"overall_score": 80}'' = Inr (JObj [(''overall_score'', JNum 80)]) \<longrightarrow>
      json_get (extract_analysis L example_response) ''overall_score'' JNull = Inr (JNum 80)) \<and>
   extract_analysis L example_plain_response = fallback_analysis\<close>
proof (intro conjI allI impI)
  fix t g
  assume "fenced_json_block t g"
  then have "find_json_text L t = Inr (str_strip L g)"
    by (simp add: find_json_text_def re_search_fenced)
  then show "extract_analysis L t =
        (case json_loads L (str_strip L g) of Inl e \<Rightarrow> fallback_analysis | Inr v \<Rightarrow> v)"
    by (rule extract_analysis_payload)
next
  fix pre mid post
  assume a: \<open>no_fenced_json_block (pre @ ''{'' @ mid @ ''}'' @ post) \<and>
      CHR ''{'' \<notin> set pre \<and> CHR ''}'' \<notin> set post\<close>
  then have "re_search_json_block (pre @ ''{'' @ mid @ ''}'' @ post) = None"
    by (simp add: re_search_not_fenced)
  from brace_span[OF this] a
  have "find_json_text L (pre @ ''{'' @ mid @ ''}'' @ post) = Inr (''{'' @ mid @ ''}'')"
    by blast
  then show "extract_analysis L (pre @ ''{'' @ mid @ ''}'' @ post) =
        (case json_loads L (''{'' @ mid @ ''}'') of Inl e \<Rightarrow> fallback_analysis | Inr v \<Rightarrow> v)"
    by (rule extract_analysis_payload)
next
  fix pre rest
  assume a: \<open>no_fenced_json_block (pre @ ''{'' @ rest) \<and>
      CHR ''{'' \<notin> set pre \<and> CHR ''}'' \<notin> set rest\<close>
  then have "re_search_json_block (pre @ ''{'' @ rest) = None"
    by (simp add: re_search_not_fenced)
  from brace_unclosed[OF this] a
  have "find_json_text L (pre @ ''{'' @ rest) = Inr []"
    by blast
  then show "extract_analysis L (pre @ ''{'' @ rest) =
        (case json_loads L [] of Inl e \<Rightarrow> fallback_analysis | Inr v \<Rightarrow> v)"
    by (rule extract_analysis_payload)
next
  fix t
  assume a: "no_fenced_json_block t \<and> CHR ''{'' \<notin> set t"
  then have "re_search_json_block t = None"
    by (simp add: re_search_not_fenced)
  from no_brace_no_payload[OF this] a
  have "find_json_text L t = Inl (ValueError ''No JSON found in response'')"
    by blast
  then show "extract_analysis L t = fallback_analysis"
    by (rule extract_analysis_no_payload)
next
  fix t
  show "(\<exists>g. fenced_json_block t g) \<or> no_fenced_json_block t"
    by (rule fenced_or_not)
next
  fix t
  show \<open>CHR ''{'' \<notin> set t \<or>
         (\<exists>pre mid post. t = pre @ ''{'' @ mid @ ''}'' @ post \<and>
            CHR ''{'' \<notin> set pre \<and> CHR ''}'' \<notin> set post) \<or>
         (\<exists>pre rest. t = pre @ ''{'' @ rest \<and> CHR ''{'' \<notin> set pre \<and> CHR ''}'' \<notin> set rest)\<close>
    by (rule brace_cases)
next
  show "json_get fallback_analysis ''overall_score'' JNull = Inr (JNum 50)"
    by (simp add: fallback_analysis_def dict_get_def)
next
  assume a: \<open>str_strip L '' {"overall_score": 80} '' = ''{"overall_score": 80}'' \<and>
    json_loads L ''{"overall_score": 80}'' = Inr (JObj [(''overall_score'', JNum 80)])\<close>
  have \<open>find_json_text L example_response = Inr (str_strip L '' {"overall_score": 80} '')\<close>
    by (simp add: find_json_text_def re_search_fenced[OF example_response_block])
  from extract_analysis_payload[OF this] a
  show "json_get (extract_analysis L example_response) ''overall_score'' JNull = Inr (JNum 80)"
    by (simp add: dict_get_def)
next
  have "re_search_json_block example_plain_response = None"
    by (rule re_search_not_fenced[OF example_plain_no_block])
  moreover have "CHR ''{'' \<notin> set example_plain_response"
    by (simp add: example_plain_response_def)
  ultimately have "find_json_text L example_plain_response =
      Inl (ValueError ''No JSON found in response'')"
    by (rule no_brace_no_payload)
  then show "extract_analysis L example_plain_response = fallback_analysis"
    by (rule extract_analysis_no_payload)
qed

theorem extractor_two_tier_witness:
  \<open>fenced_json_block example_response '' {"overall_score": 80} '' \<and>
    extract_analysis example_lib example_response = JObj [(''overall_score'', JNum 80)] \<and>
    fenced_json_block tick_response '' {"overall_score": 80} '' \<and>
    extract_analysis example_lib tick_response = JObj [(''overall_score'', JNum 80)] \<and>
    no_fenced_json_block (''Result: '' @ ''{'' @ ''"overall_score": 80'' @ ''}'' @ '' done'') \<and>
    extract_analysis example_lib (''Result: '' @ ''{'' @ ''"overall_score": 80'' @ ''}'' @ '' done'') =
      JObj [(''overall_score'', JNum 80)] \<and>
    no_fenced_json_block (unclosed_response @ ''{'' @ ''"overall_score": 80'' @ ''}'' @ []) \<and>
    extract_analysis example_lib (unclosed_response @ ''{'' @ ''"overall_score": 80'' @ ''}'' @ []) =
      JObj [(''overall_score'', JNum 80)] \<and>
    extract_analysis example_lib ''no payload'' = fallback_analysis \<and>
    json_get (extract_analysis example_lib example_response) ''overall_score'' JNull =
      Inr (JNum 80)\<close>
proof -
  note tiers = extractor_two_tier[of example_lib]
  have loads: \<open>json_loads example_lib ''{"overall_score": 80}'' =
                 Inr (JObj [(''overall_score'', JNum 80)])\<close>
    by (simp add: example_lib_def)
  have strip: \<open>str_strip example_lib '' {"overall_score": 80} '' = ''{"overall_score": 80}''\<close>
    by (simp add: example_lib_simps ascii_strip_def ascii_space_def)
  note block1 = example_response_block
  from tiers block1 have
    \<open>extract_analysis example_lib example_response =
      (case json_loads example_lib (str_strip example_lib '' {"overall_score": 80} '') of
         Inl e \<Rightarrow> fallback_analysis | Inr v \<Rightarrow> v)\<close>
    by blast
  then have a: \<open>extract_analysis example_lib example_response = JObj [(''overall_score'', JNum 80)]\<close>
    by (simp add: strip loads)
  have block2: \<open>fenced_json_block tick_response '' {"overall_score": 80} ''\<close>
  proof (rule fenced_json_blockI)
    show \<open>until_sub (fence @ ''json'') tick_response = Some (''see '' @ [CHR 0x60] @ ''x'' @ [CHR 0x60] @ '': '')\<close>
      by (simp add: tick_response_def fence_def)
    show \<open>tick_response = (''see '' @ [CHR 0x60] @ ''x'' @ [CHR 0x60] @ '': '') @ fence @ ''json'' @
            '' {"overall_score": 80} '' @ fence @ []\<close>
      by (simp add: tick_response_def)
    show \<open>until_sub fence ('' {"overall_score": 80} '' @ fence @ []) = Some '' {"overall_score": 80} ''\<close>
      by (simp add: fence_def)
  qed
  with tiers have
    \<open>extract_analysis example_lib tick_response =
      (case json_loads example_lib (str_strip example_lib '' {"overall_score": 80} '') of
         Inl e \<Rightarrow> fallback_analysis | Inr v \<Rightarrow> v)\<close>
    by blast
  then have b: \<open>extract_analysis example_lib tick_response = JObj [(''overall_score'', JNum 80)]\<close>
    by (simp add: strip loads)
  have \<open>\<not> str_contains (fence @ ''json'')
            (''Result: '' @ ''{'' @ ''"overall_score": 80'' @ ''}'' @ '' done'')\<close>
    by (simp add: fence_def)
  then have nofence: \<open>no_fenced_json_block
            (''Result: '' @ ''{'' @ ''"overall_score": 80'' @ ''}'' @ '' done'')\<close>
    by (simp add: str_contains_sublist no_fenced_json_block_def)
  have sides: \<open>CHR ''{'' \<notin> set ''Result: '' \<and> CHR ''}'' \<notin> set '' done''\<close>
    by simp
  from tiers have
    \<open>no_fenced_json_block (''Result: '' @ ''{'' @ ''"overall_score": 80'' @ ''}'' @ '' done'') \<and>
      CHR ''{'' \<notin> set ''Result: '' \<and> CHR ''}'' \<notin> set '' done'' \<longrightarrow>
      extract_analysis example_lib
        (''Result: '' @ ''{'' @ ''"overall_score": 80'' @ ''}'' @ '' done'') =
      (case json_loads example_lib (''{'' @ ''"overall_score": 80'' @ ''}'') of
         Inl e \<Rightarrow> fallback_analysis | Inr v \<Rightarrow> v)\<close>
    by blast
  with nofence sides have
    \<open>extract_analysis example_lib
        (''Result: '' @ ''{'' @ ''"overall_score": 80'' @ ''}'' @ '' done'') =
      (case json_loads example_lib (''{'' @ ''"overall_score": 80'' @ ''}'') of
         Inl e \<Rightarrow> fallback_analysis | Inr v \<Rightarrow> v)\<close>
    by blast
  then have c: \<open>extract_analysis example_lib
        (''Result: '' @ ''{'' @ ''"overall_score": 80'' @ ''}'' @ '' done'') =
      JObj [(''overall_score'', JNum 80)]\<close>
    using loads by simp
  have unclosed: \<open>no_fenced_json_block (unclosed_response @ ''{'' @ ''"overall_score": 80'' @ ''}'' @ [])\<close>
  proof (rule no_fenced_unclosedI)
    show \<open>until_sub (fence @ ''json'') (unclosed_response @ ''{'' @ ''"overall_score": 80'' @ ''}'' @ []) =
            Some ''Here: ''\<close>
      by (simp add: unclosed_response_def fence_def)
    show \<open>unclosed_response @ ''{'' @ ''"overall_score": 80'' @ ''}'' @ [] =
            ''Here: '' @ fence @ ''json'' @ '' {"overall_score": 80}''\<close>
      by (simp add: unclosed_response_def)
    show \<open>until_sub fence '' {"overall_score": 80}'' = None\<close>
      by (simp add: fence_def)
  qed
  have sides2: \<open>CHR ''{'' \<notin> set unclosed_response \<and> CHR ''}'' \<notin> set []\<close>
    by (simp add: unclosed_response_def fence_def)
  from tiers have
    \<open>no_fenced_json_block (unclosed_response @ ''{'' @ ''"overall_score": 80'' @ ''}'' @ []) \<and>
      CHR ''{'' \<notin> set unclosed_response \<and> CHR ''}'' \<notin> set [] \<longrightarrow>
      extract_analysis example_lib
        (unclosed_response @ ''{'' @ ''"overall_score": 80'' @ ''}'' @ []) =
      (case json_loads example_lib (''{'' @ ''"overall_score": 80'' @ ''}'') of
         Inl e \<Rightarrow> fallback_analysis | Inr v \<Rightarrow> v)\<close>
    by blast
  with unclosed sides2 have
    \<open>extract_analysis example_lib
        (unclosed_response @ ''{'' @ ''"overall_score": 80'' @ ''}'' @ []) =
      (case json_loads example_lib (''{'' @ ''"overall_score": 80'' @ ''}'') of
         Inl e \<Rightarrow> fallback_analysis | Inr v \<Rightarrow> v)\<close>
    by blast
  then have d: \<open>extract_analysis example_lib
        (unclosed_response @ ''{'' @ ''"overall_score": 80'' @ ''}'' @ []) =
      JObj [(''overall_score'', JNum 80)]\<close>
    using loads by simp
  have "\<not> str_contains (fence @ ''json'') ''no payload''"
    by (simp add: fence_def)
  then have "no_fenced_json_block ''no payload'' \<and> CHR ''{'' \<notin> set ''no payload''"
    by (simp add: str_contains_sublist no_fenced_json_block_def)
  with tiers have e: "extract_analysis example_lib ''no payload'' = fallback_analysis"
    by blast
  from tiers strip loads have f:
    "json_get (extract_analysis example_lib example_response) ''overall_score'' JNull =
       Inr (JNum 80)"
    by blast
  from block1 a block2 b nofence c unclosed d e f show ?thesis by (intro conjI)
qed

text \<open>
  When \<open>json.loads\<close> raises on the payload, whatever the exception, the result is the
  fallback record: \<open>JSONDecodeError\<close> and \<open>ValueError\<close> end in the inner handler, anything
  else in the outer one.
\<close>

lemma extract_analysis_unparseable:
  "find_json_text L t = Inr payload \<Longrightarrow> json_loads L payload = Inl e \<Longrightarrow>
   extract_analysis L t = fallback_analysis"
  by (simp add: extract_analysis_payload)

text \<open>\<open>analyze_resume\<close> hands the \<open>response\<close> text of the model's answer to the extractor.\<close>

lemma analyze_resume_extracts:
  assumes "bytes_decode L data = Inr body" and "json_loads L body = Inr (JObj kvs)"
    and "map_of kvs ''response'' = Some (JStr response_text)"
  shows "analyze_resume L (Body data) = extract_analysis L response_text"
  using assms by (simp add: analyze_resume_def dict_get_def)

end
